theory Spec2Isabelle
  imports Main "HOL-Library.Word" "HOL-Library.Sublist"
begin

section \<open>Data model (src/types.ts)\<close>

text \<open>
  A JavaScript string is a sequence of UTF-16 code units; \<open>length\<close>, \<open>substring\<close>,
  \<open>split\<close>, \<open>trim\<close> and the regular expressions of the source all work on code units.
  \<open>js\<close> embeds an ASCII literal of the source.
\<close>

type_synonym jschar = "16 word"
type_synonym jsstring = "jschar list"

definition js :: "string \<Rightarrow> jsstring" where
  "js s = map (\<lambda>c. of_nat (of_char c)) s"

definition ch :: "char \<Rightarrow> jschar" where
  "ch c = of_nat (of_char c)"

definition nl :: jschar where
  "nl = ch CHR 0x0A"

datatype OperationMode = READ_ONLY | WRITE_ENABLED

datatype QueryType =
    SELECT | SHOW | DESCRIBE | EXPLAIN | USE
  | INSERT | UPDATE | DELETE | REPLACE
  | CREATE | ALTER | DROP | TRUNCATE
  | START_TRANSACTION | COMMIT | ROLLBACK | SAVEPOINT
  | GRANT | REVOKE | FLUSH | KILL | LOAD_DATA | SET
  | UNKNOWN

record ParseResult =
  queryType :: QueryType
  allowed :: bool
  reason :: "jsstring option"
  suggestion :: "jsstring option"

section \<open>Normalizer and statement splitter (src/services/query-parser.ts)\<close>

text \<open>
  \<open>query.replace(/--[^\n]*/g, '')\<close>: at each position, left to right, two hyphens start
  a match that runs greedily up to (not including) the next line feed or the end of input;
  the match is deleted and the scan resumes after it.
\<close>

function removeLineComments :: "jsstring \<Rightarrow> jsstring" where
  "removeLineComments [] = []"
| "removeLineComments [c] = [c]"
| "removeLineComments (c # d # cs) =
     (if c = ch CHR ''-'' \<and> d = ch CHR ''-''
      then removeLineComments (dropWhile (\<lambda>x. x \<noteq> nl) cs)
      else c # removeLineComments (d # cs))"
  by pat_completeness auto
termination
  by (relation "measure length") (auto simp: le_imp_less_Suc length_dropWhile_le less_SucI)

text \<open>
  \<open>result.replace(/\/\*[\s\S]*?\*\//g, '')\<close>: \<open>/*\<close> starts a match that runs lazily to
  the first \<open>*/\<close> that begins at or after the code unit following \<open>/*\<close>; without a closing
  \<open>*/\<close> there is no match at this position and the code unit is kept.
  \<open>findClose\<close> returns the text after the first \<open>*/\<close>.
\<close>

fun findClose :: "jsstring \<Rightarrow> jsstring option" where
  "findClose [] = None"
| "findClose [c] = None"
| "findClose (c # d # cs) =
     (if c = ch CHR ''*'' \<and> d = ch CHR ''/'' then Some cs else findClose (d # cs))"

lemma findClose_length: "findClose cs = Some r \<Longrightarrow> length r < length cs"
  by (induction cs rule: findClose.induct) (auto split: if_splits)

function removeBlockComments :: "jsstring \<Rightarrow> jsstring" where
  "removeBlockComments [] = []"
| "removeBlockComments [c] = [c]"
| "removeBlockComments (c # d # cs) =
     (if c = ch CHR ''/'' \<and> d = ch CHR ''*''
      then (case findClose cs of
              Some r \<Rightarrow> removeBlockComments r
            | None \<Rightarrow> c # removeBlockComments (d # cs))
      else c # removeBlockComments (d # cs))"
  by pat_completeness auto
termination
  by (relation "measure length") (auto dest: findClose_length)

definition removeComments :: "jsstring \<Rightarrow> jsstring" where
  "removeComments query = removeBlockComments (removeLineComments query)"

text \<open>
  The code units that \<open>String.prototype.trim\<close> strips and that \<open>\s\<close> matches (ECMAScript
  WhiteSpace and LineTerminator): TAB, LF, VT, FF, CR, SPACE, U+00A0, U+1680,
  U+2000..U+200A, U+2028, U+2029, U+202F, U+205F, U+3000, U+FEFF.
\<close>

definition isSpace :: "jschar \<Rightarrow> bool" where
  "isSpace c \<longleftrightarrow>
     c \<in> {0x09, 0x0A, 0x0B, 0x0C, 0x0D, 0x20, 0xA0, 0x1680, 0x2028, 0x2029, 0x202F, 0x205F,
          0x3000, 0xFEFF}
     \<or> (0x2000 \<le> c \<and> c \<le> 0x200A)"

definition trim :: "jsstring \<Rightarrow> jsstring" where
  "trim s = rev (dropWhile isSpace (rev (dropWhile isSpace s)))"

text \<open>\<open>result.replace(/\s+/g, ' ')\<close>: every maximal whitespace run becomes one SPACE.\<close>

function collapseWhitespace :: "jsstring \<Rightarrow> jsstring" where
  "collapseWhitespace [] = []"
| "collapseWhitespace (c # cs) =
     (if isSpace c then ch CHR '' '' # collapseWhitespace (dropWhile isSpace cs)
      else c # collapseWhitespace cs)"
  by pat_completeness auto
termination
  by (relation "measure length") (auto simp: le_imp_less_Suc length_dropWhile_le)

definition normalizeWhitespace :: "jsstring \<Rightarrow> jsstring" where
  "normalizeWhitespace query = collapseWhitespace (trim query)"

definition normalizeQuery :: "jsstring \<Rightarrow> jsstring" where
  "normalizeQuery query = normalizeWhitespace (removeComments query)"

text \<open>\<open>String.prototype.split\<close> with a one-code-unit separator: always at least one piece.\<close>

fun split :: "jschar \<Rightarrow> jsstring \<Rightarrow> jsstring list" where
  "split sep [] = [[]]"
| "split sep (c # cs) =
     (if c = sep then [] # split sep cs
      else (case split sep cs of [] \<Rightarrow> [[c]] | p # ps \<Rightarrow> (c # p) # ps))"

definition splitStatements :: "jsstring \<Rightarrow> jsstring list" where
  "splitStatements query =
     filter (\<lambda>stmt. length stmt > 0) (map trim (split (ch CHR '';'') query))"

section \<open>Classifier (src/services/query-parser.ts)\<close>

text \<open>
  \<open>upper.split(/\s+/)\<close>: the pieces between the maximal whitespace runs; a leading or
  trailing run yields an empty first or last piece, and the empty string yields one empty
  piece.
\<close>

function splitWhitespace :: "jsstring \<Rightarrow> jsstring list" where
  "splitWhitespace [] = [[]]"
| "splitWhitespace (c # cs) =
     (if isSpace c then [] # splitWhitespace (dropWhile isSpace cs)
      else (case splitWhitespace cs of [] \<Rightarrow> [[c]] | w # ws \<Rightarrow> (c # w) # ws))"
  by pat_completeness auto
termination
  by (relation "measure length") (auto simp: le_imp_less_Suc length_dropWhile_le)

text \<open>
  The regular expression \<open>/\bWITH\b[\s\S]*?\b(SELECT|INSERT|UPDATE|DELETE)\b/\<close> of
  \<open>extractFirstKeyword\<close>. A word character is one of \<open>[A-Za-z0-9_]\<close>; \<open>\b\<close> holds
  between two positions when exactly one side is a word character (the ends of the input
  count as non-word). The scanners carry the code unit before the current position.
\<close>

definition isWordChar :: "jschar \<Rightarrow> bool" where
  "isWordChar c \<longleftrightarrow>
     (0x41 \<le> c \<and> c \<le> 0x5A) \<or> (0x61 \<le> c \<and> c \<le> 0x7A) \<or> (0x30 \<le> c \<and> c \<le> 0x39)
     \<or> c = 0x5F"

definition wordBefore :: "jschar option \<Rightarrow> bool" where
  "wordBefore prev = (case prev of None \<Rightarrow> False | Some c \<Rightarrow> isWordChar c)"

definition wordAfter :: "jsstring \<Rightarrow> bool" where
  "wordAfter rest = (case rest of [] \<Rightarrow> False | c # _ \<Rightarrow> isWordChar c)"

definition wordBoundary :: "jschar option \<Rightarrow> jsstring \<Rightarrow> bool" where
  "wordBoundary prev rest = (wordBefore prev \<noteq> wordAfter rest)"

text \<open>\<open>\bKW\b\<close> at the current position, for a non-empty keyword \<open>kw\<close>.\<close>

definition matchWordAt :: "jsstring \<Rightarrow> jschar option \<Rightarrow> jsstring \<Rightarrow> bool" where
  "matchWordAt kw prev rest \<longleftrightarrow>
     wordBoundary prev rest \<and> take (length kw) rest = kw
     \<and> wordBoundary (Some (last kw)) (drop (length kw) rest)"

definition DML_KEYWORDS :: "jsstring list" where
  "DML_KEYWORDS = [js ''SELECT'', js ''INSERT'', js ''UPDATE'', js ''DELETE'']"

text \<open>
  \<open>[\s\S]*?\b(SELECT|INSERT|UPDATE|DELETE)\b\<close>: the lazy star tries the alternatives at the
  current position first, in their order, and only then skips one code unit.
\<close>

definition dmlAt :: "jschar option \<Rightarrow> jsstring \<Rightarrow> jsstring option" where
  "dmlAt prev rest = List.find (\<lambda>kw. matchWordAt kw prev rest) DML_KEYWORDS"

fun findDml :: "jschar option \<Rightarrow> jsstring \<Rightarrow> jsstring option" where
  "findDml prev [] = dmlAt prev []"
| "findDml prev (c # cs) =
     (case dmlAt prev (c # cs) of
        Some kw \<Rightarrow> Some kw
      | None \<Rightarrow> findDml (Some c) cs)"

text \<open>
  \<open>upper.match(...)\<close>: the leftmost start position at which the whole expression matches;
  the result is capture group 1.
\<close>

definition cteAt :: "jschar option \<Rightarrow> jsstring \<Rightarrow> jsstring option" where
  "cteAt prev rest =
     (if matchWordAt (js ''WITH'') prev rest
      then findDml (Some (ch CHR ''H'')) (drop 4 rest) else None)"

fun matchCte :: "jschar option \<Rightarrow> jsstring \<Rightarrow> jsstring option" where
  "matchCte prev [] = cteAt prev []"
| "matchCte prev (c # cs) =
     (case cteAt prev (c # cs) of
        Some kw \<Rightarrow> Some kw
      | None \<Rightarrow> matchCte (Some c) cs)"

definition startsWith :: "jsstring \<Rightarrow> jsstring \<Rightarrow> bool" where
  "startsWith s p = (take (length p) s = p)"

text \<open>
  \<open>String.prototype.toUpperCase\<close> belongs to the JavaScript runtime (Unicode default
  upper-casing), not to this repository: the classifier takes it as the parameter
  \<open>toUpperCase\<close>. \<open>asciiToUpperCase\<close> is what it computes on strings of ASCII code units.
\<close>

definition asciiToUpperCase :: "jsstring \<Rightarrow> jsstring" where
  "asciiToUpperCase s = map (\<lambda>c. if 0x61 \<le> c \<and> c \<le> 0x7A then c - 0x20 else c) s"

text \<open>
  \<open>extractFirstKeyword\<close> in its two steps: the lookahead guarded by
  \<open>upper.startsWith('WITH')\<close>, and \<open>words[0] || ''\<close>.
\<close>

definition cteLookahead :: "jsstring \<Rightarrow> jsstring option" where
  "cteLookahead upper = (if startsWith upper (js ''WITH'') then matchCte None upper else None)"

definition firstWord :: "jsstring \<Rightarrow> jsstring" where
  "firstWord upper =
     (case splitWhitespace upper of
        [] \<Rightarrow> []
      | w # _ \<Rightarrow> (if w = [] then [] else w))"

definition extractFirstKeyword :: "(jsstring \<Rightarrow> jsstring) \<Rightarrow> jsstring \<Rightarrow> jsstring" where
  "extractFirstKeyword toUpperCase statement =
     (let upper = toUpperCase statement in
      case cteLookahead upper of
        Some kw \<Rightarrow> kw
      | None \<Rightarrow> firstWord upper)"

text \<open>The \<open>switch\<close> of \<open>detectQueryType\<close>, case by case.\<close>

definition keywordTable :: "jsstring \<Rightarrow> QueryType" where
  "keywordTable keyword =
     (if keyword = js ''SELECT'' then SELECT
      else if keyword = js ''INSERT'' then INSERT
      else if keyword = js ''UPDATE'' then UPDATE
      else if keyword = js ''DELETE'' then DELETE
      else if keyword = js ''REPLACE'' then REPLACE
      else if keyword = js ''CREATE'' then CREATE
      else if keyword = js ''ALTER'' then ALTER
      else if keyword = js ''DROP'' then DROP
      else if keyword = js ''TRUNCATE'' then TRUNCATE
      else if keyword = js ''START'' \<or> keyword = js ''BEGIN'' then START_TRANSACTION
      else if keyword = js ''COMMIT'' then COMMIT
      else if keyword = js ''ROLLBACK'' then ROLLBACK
      else if keyword = js ''SAVEPOINT'' then SAVEPOINT
      else if keyword = js ''GRANT'' then GRANT
      else if keyword = js ''REVOKE'' then REVOKE
      else if keyword = js ''FLUSH'' then FLUSH
      else if keyword = js ''KILL'' then KILL
      else if keyword = js ''LOAD'' then LOAD_DATA
      else if keyword = js ''SHOW'' then SHOW
      else if keyword = js ''DESCRIBE'' \<or> keyword = js ''DESC'' then DESCRIBE
      else if keyword = js ''EXPLAIN'' then EXPLAIN
      else if keyword = js ''USE'' then USE
      else if keyword = js ''SET'' then SET
      else UNKNOWN)"

definition detectQueryType :: "(jsstring \<Rightarrow> jsstring) \<Rightarrow> jsstring \<Rightarrow> QueryType" where
  "detectQueryType toUpperCase statement =
     keywordTable (extractFirstKeyword toUpperCase statement)"

section \<open>Policy engine (src/services/query-parser.ts)\<close>

definition ALWAYS_ALLOWED :: "QueryType list" where
  "ALWAYS_ALLOWED = [SELECT, SHOW, DESCRIBE, EXPLAIN]"

definition NEVER_ALLOWED :: "QueryType list" where
  "NEVER_ALLOWED = [DROP, TRUNCATE, GRANT, REVOKE, FLUSH, KILL, LOAD_DATA]"

definition WRITE_MODE_ALLOWED :: "QueryType list" where
  "WRITE_MODE_ALLOWED =
     [INSERT, UPDATE, DELETE, REPLACE, START_TRANSACTION, COMMIT, ROLLBACK, SAVEPOINT]"

text \<open>\<open>Array.prototype.includes\<close> on an array of enum values.\<close>

definition arr_includes :: "'a list \<Rightarrow> 'a \<Rightarrow> bool" where
  "arr_includes xs x = (x \<in> set xs)"

definition isAllowed :: "QueryType \<Rightarrow> OperationMode \<Rightarrow> bool" where
  "isAllowed qt mode =
     (if arr_includes ALWAYS_ALLOWED qt then True
      else if arr_includes NEVER_ALLOWED qt then False
      else if mode = WRITE_ENABLED \<and> arr_includes WRITE_MODE_ALLOWED qt then True
      else False)"

text \<open>The string value of each enum member, as a template literal prints it.\<close>

fun queryTypeName :: "QueryType \<Rightarrow> jsstring" where
  "queryTypeName SELECT = js ''SELECT''"
| "queryTypeName SHOW = js ''SHOW''"
| "queryTypeName DESCRIBE = js ''DESCRIBE''"
| "queryTypeName EXPLAIN = js ''EXPLAIN''"
| "queryTypeName USE = js ''USE''"
| "queryTypeName INSERT = js ''INSERT''"
| "queryTypeName UPDATE = js ''UPDATE''"
| "queryTypeName DELETE = js ''DELETE''"
| "queryTypeName REPLACE = js ''REPLACE''"
| "queryTypeName CREATE = js ''CREATE''"
| "queryTypeName ALTER = js ''ALTER''"
| "queryTypeName DROP = js ''DROP''"
| "queryTypeName TRUNCATE = js ''TRUNCATE''"
| "queryTypeName START_TRANSACTION = js ''START_TRANSACTION''"
| "queryTypeName COMMIT = js ''COMMIT''"
| "queryTypeName ROLLBACK = js ''ROLLBACK''"
| "queryTypeName SAVEPOINT = js ''SAVEPOINT''"
| "queryTypeName GRANT = js ''GRANT''"
| "queryTypeName REVOKE = js ''REVOKE''"
| "queryTypeName FLUSH = js ''FLUSH''"
| "queryTypeName KILL = js ''KILL''"
| "queryTypeName LOAD_DATA = js ''LOAD_DATA''"
| "queryTypeName SET = js ''SET''"
| "queryTypeName UNKNOWN = js ''UNKNOWN''"

fun modeName :: "OperationMode \<Rightarrow> jsstring" where
  "modeName READ_ONLY = js ''READ_ONLY''"
| "modeName WRITE_ENABLED = js ''WRITE_ENABLED''"

definition explainBlocked :: "QueryType \<Rightarrow> OperationMode \<Rightarrow> jsstring" where
  "explainBlocked qt mode =
     (if mode = READ_ONLY then
        (if qt \<in> {INSERT, UPDATE, DELETE, REPLACE} then
           queryTypeName qt @ js '' operations are not allowed in READ-ONLY mode. Set MYSQL_ALLOW_WRITE=true to enable write operations.''
         else if qt \<in> {START_TRANSACTION, COMMIT, ROLLBACK, SAVEPOINT} then
           js ''Transaction control ('' @ queryTypeName qt @ js '') is not allowed in READ-ONLY mode. Set MYSQL_ALLOW_WRITE=true to enable transactions.''
         else if qt \<in> {DROP, TRUNCATE} then
           queryTypeName qt @ js '' operations are dangerous and never allowed for safety. Use MySQL CLI directly for destructive DDL operations.''
         else if qt \<in> {CREATE, ALTER} then
           js ''DDL operations ('' @ queryTypeName qt @ js '') are not allowed in READ-ONLY mode.''
         else if qt \<in> {GRANT, REVOKE, FLUSH, KILL, LOAD_DATA} then
           js ''Administrative commands ('' @ queryTypeName qt @ js '') are never allowed for security reasons.''
         else if qt = SET then
           js ''SET operations are not allowed in READ-ONLY mode.''
         else
           queryTypeName qt @ js '' operations are not allowed in READ-ONLY mode.'')
      else
        (if qt \<in> {DROP, TRUNCATE} then
           queryTypeName qt @ js '' operations are dangerous and blocked even in WRITE mode for safety. Use MySQL CLI directly for destructive DDL operations.''
         else if qt \<in> {GRANT, REVOKE, FLUSH, KILL, LOAD_DATA} then
           js ''Administrative commands ('' @ queryTypeName qt @ js '') are never allowed for security reasons.''
         else if qt \<in> {CREATE, ALTER} then
           js ''DDL operations ('' @ queryTypeName qt @ js '') are not allowed even in WRITE mode. Use MySQL CLI for schema changes.''
         else
           queryTypeName qt @ js '' operations are not recognized or not allowed.''))"

definition suggestFix :: "QueryType \<Rightarrow> OperationMode \<Rightarrow> jsstring" where
  "suggestFix qt mode =
     (if mode = READ_ONLY then
        (if arr_includes WRITE_MODE_ALLOWED qt then
           js ''To enable write operations, set the environment variable: MYSQL_ALLOW_WRITE=true''
         else if qt = DROP \<or> qt = TRUNCATE then
           js ''For safety, destructive DDL operations must be performed directly using MySQL CLI, not through this MCP server.''
         else if arr_includes NEVER_ALLOWED qt then
           js ''Administrative commands are never allowed through this MCP server for security reasons.''
         else [])
      else
        (if qt = DROP \<or> qt = TRUNCATE then
           js ''Even in WRITE mode, destructive DDL operations are blocked. Use MySQL CLI directly for these operations.''
         else if arr_includes NEVER_ALLOWED qt then
           js ''Administrative commands are never allowed through this MCP server, regardless of mode.''
         else []))"

subsection \<open>Audit log (src/utils/logger.ts)\<close>

definition LOG_QUERY_TRUNCATE_LENGTH :: nat where
  "LOG_QUERY_TRUNCATE_LENGTH = 200"

definition truncateForLog :: "jsstring \<Rightarrow> nat \<Rightarrow> jsstring" where
  "truncateForLog str maxLength =
     (if length str \<le> maxLength then str else take maxLength str @ js ''...'')"

text \<open>
  \<open>logQuery\<close> hands one message to \<open>logInfo\<close>, which writes it to stderr behind a
  timestamp. The model keeps the messages, in the order written.
\<close>

definition logQuery :: "jsstring \<Rightarrow> OperationMode \<Rightarrow> bool \<Rightarrow> QueryType option \<Rightarrow> jsstring" where
  "logQuery query mode ok qt =
     (let status = (if ok then js ''EXECUTED'' else js ''BLOCKED'');
          typeInfo = (case qt of Some t \<Rightarrow> js '' ('' @ queryTypeName t @ js '')'' | None \<Rightarrow> []);
          truncatedQuery = truncateForLog query LOG_QUERY_TRUNCATE_LENGTH
      in js ''Query '' @ status @ js '' ['' @ modeName mode @ js '']'' @ typeInfo @ js '': ''
           @ truncatedQuery)"

subsection \<open>parseQuery\<close>

text \<open>
  The \<open>for\<close> loop of \<open>parseQuery\<close>: each statement is classified, checked and logged; the
  first statement that is not allowed ends the loop with its rejection. The result is the
  rejection, if any, and the log messages written. \<open>statements.length === 0\<close> is the
  empty-list case, and \<open>statements[0]\<close> the head in the other.
\<close>

definition blockedVerdict :: "QueryType \<Rightarrow> OperationMode \<Rightarrow> ParseResult" where
  "blockedVerdict qt mode =
     \<lparr>queryType = qt, allowed = False,
      reason = Some (explainBlocked qt mode),
      suggestion = Some (suggestFix qt mode)\<rparr>"

fun checkStatements ::
  "(jsstring \<Rightarrow> jsstring) \<Rightarrow> OperationMode \<Rightarrow> jsstring list \<Rightarrow> ParseResult option \<times> jsstring list"
where
  "checkStatements toUpperCase mode [] = (None, [])"
| "checkStatements toUpperCase mode (statement # rest) =
     (let qt = detectQueryType toUpperCase statement;
          ok = isAllowed qt mode;
          entry = logQuery statement mode ok (Some qt)
      in if \<not> ok then (Some (blockedVerdict qt mode), [entry])
         else (case checkStatements toUpperCase mode rest of (r, log) \<Rightarrow> (r, entry # log)))"

definition parseQueryLogged ::
  "(jsstring \<Rightarrow> jsstring) \<Rightarrow> jsstring \<Rightarrow> OperationMode \<Rightarrow> ParseResult \<times> jsstring list"
where
  "parseQueryLogged toUpperCase query mode =
     (let normalized = normalizeQuery query;
          statements = splitStatements normalized
      in case statements of
           [] \<Rightarrow>
             (\<lparr>queryType = UNKNOWN, allowed = False,
               reason = Some (js ''Empty or invalid query''),
               suggestion = Some (js ''Please provide a valid SQL query.'')\<rparr>, [])
         | first # _ \<Rightarrow>
             (case checkStatements toUpperCase mode statements of
                (Some rj, log) \<Rightarrow> (rj, log)
              | (None, log) \<Rightarrow>
                  (\<lparr>queryType = detectQueryType toUpperCase first, allowed = True,
                    reason = None, suggestion = None\<rparr>, log)))"

definition parseQuery :: "(jsstring \<Rightarrow> jsstring) \<Rightarrow> jsstring \<Rightarrow> OperationMode \<Rightarrow> ParseResult" where
  "parseQuery toUpperCase query mode = fst (parseQueryLogged toUpperCase query mode)"

section \<open>Database client (src/services/mysql-client.ts)\<close>

text \<open>Decimal rendering of an integer, as a template literal prints a safe integer.\<close>

definition digit :: "nat \<Rightarrow> jschar" where
  "digit d = of_nat (48 + d)"

fun showNat :: "nat \<Rightarrow> jsstring" where
  "showNat n = (if n < 10 then [digit n] else showNat (n div 10) @ [digit (n mod 10)])"

declare showNat.simps [simp del]

definition showInt :: "int \<Rightarrow> jsstring" where
  "showInt i = (if i < 0 then ch CHR ''-'' # showNat (nat (- i)) else showNat (nat i))"

text \<open>\<open>String.prototype.includes\<close>: the needle occurs at some position.\<close>

fun str_includes :: "jsstring \<Rightarrow> jsstring \<Rightarrow> bool" where
  "str_includes [] needle = (needle = [])"
| "str_includes (c # cs) needle =
     (take (length needle) (c # cs) = needle \<or> str_includes cs needle)"

text \<open>
  A thrown value, by what the handlers read of it: whether it is an \<open>Error\<close> instance, its
  \<open>name\<close> and \<open>message\<close>, the issues of a \<open>ZodError\<close> (path and message of each), the
  fields of a mysql2 error (\<open>code\<close> when it is a string, \<open>sqlMessage\<close>, \<open>sql\<close>), and what
  \<open>String(error)\<close> gives.
\<close>

record Thrown =
  instanceofError :: bool
  errName :: jsstring
  errMessage :: jsstring
  zodIssues :: "(jsstring \<times> jsstring) list option"
  errCode :: "jsstring option"
  sqlMessage :: "jsstring option"
  errSql :: "jsstring option"
  asString :: jsstring

text \<open>\<open>new Error(msg)\<close>.\<close>

definition newError :: "jsstring \<Rightarrow> Thrown" where
  "newError msg =
     \<lparr>instanceofError = True, errName = js ''Error'', errMessage = msg, zodIssues = None,
      errCode = None, sqlMessage = None, errSql = None, asString = js ''Error: '' @ msg\<rparr>"

text \<open>
  What mysql2 hands back. A cell carries the text that the runtime's \<open>String\<close>,
  \<open>toISOString\<close> or \<open>JSON.stringify\<close> gives for it; a row is an object read by column
  name; the first component of the result is an array of rows or one \<open>OkPacket\<close>.
\<close>

datatype Cell =
    CNull | CUndefined | CString jsstring | CNumber jsstring | CBoolean bool
  | CDate jsstring | CObject jsstring | COther jsstring

type_synonym RowDataPacket = "(jsstring \<times> Cell) list"

record FieldPacket =
  fieldName :: jsstring
  fieldType :: "nat option"

record OkPacket =
  okAffectedRows :: int
  okInsertId :: "int option"
  okChangedRows :: "int option"

datatype NativeRows = RowArray "RowDataPacket list" | Packet OkPacket

type_synonym MySQLQueryResult = "NativeRows \<times> FieldPacket list"

record QueryOptions =
  optSql :: jsstring
  optTimeout :: nat

text \<open>
  The connection pool is the external collaborator: \<open>pool.query\<close> is a parameter that
  settles each call with a rejection (\<open>Inl\<close>) or a result (\<open>Inr\<close>). Every function that may
  reach the pool also returns the list of the calls it made.
\<close>

type_synonym PoolQuery = "QueryOptions \<Rightarrow> Thrown + MySQLQueryResult"

record MySQLClient =
  poolInitialized :: bool
  configQueryTimeout :: nat

definition clientExecuteQuery ::
  "PoolQuery \<Rightarrow> MySQLClient \<Rightarrow> jsstring \<Rightarrow> nat option
     \<Rightarrow> (Thrown + MySQLQueryResult) \<times> QueryOptions list"
where
  "clientExecuteQuery poolQuery client sqlText timeout =
     (if \<not> poolInitialized client then
        (Inl (newError (js ''MySQL client not initialized. Call initialize() first.'')), [])
      else
        let queryTimeout = (case timeout of
                              Some t \<Rightarrow> if t = 0 then configQueryTimeout client else t
                            | None \<Rightarrow> configQueryTimeout client);
            queryOptions = \<lparr>optSql = sqlText, optTimeout = queryTimeout\<rparr>
        in (case poolQuery queryOptions of
              Inr result \<Rightarrow> (Inr result, [queryOptions])
            | Inl error \<Rightarrow>
                (if instanceofError error \<and> str_includes (errMessage error) (js ''timeout'')
                 then (Inl (newError (js ''Query execution timeout exceeded (''
                                        @ showNat queryTimeout @ js ''ms)'')), [queryOptions])
                 else (Inl error, [queryOptions]))))"

section \<open>Query executor (src/services/query-executor.ts)\<close>

record Column =
  colName :: jsstring
  colType :: jsstring

record QueryResult =
  columns :: "Column list option"
  rows :: "Cell list list option"
  affectedRows :: "int option"
  insertId :: "int option"
  changedRows :: "int option"
  rowCount :: int
  executionTime :: int
  truncated :: "bool option"

definition typeMap :: "(nat \<times> string) list" where
  "typeMap =
     [(0, ''DECIMAL''), (1, ''TINY''), (2, ''SHORT''), (3, ''LONG''), (4, ''FLOAT''),
      (5, ''DOUBLE''), (6, ''NULL''), (7, ''TIMESTAMP''), (8, ''LONGLONG''), (9, ''INT24''),
      (10, ''DATE''), (11, ''TIME''), (12, ''DATETIME''), (13, ''YEAR''), (15, ''VARCHAR''),
      (16, ''BIT''), (245, ''JSON''), (246, ''NEWDECIMAL''), (247, ''ENUM''), (248, ''SET''),
      (249, ''TINY_BLOB''), (250, ''MEDIUM_BLOB''), (251, ''LONG_BLOB''), (252, ''BLOB''),
      (253, ''VAR_STRING''), (254, ''STRING''), (255, ''GEOMETRY'')]"

definition getFieldTypeName :: "nat \<Rightarrow> jsstring" where
  "getFieldTypeName t =
     (case map_of typeMap t of
        Some n \<Rightarrow> js n
      | None \<Rightarrow> js ''UNKNOWN('' @ showNat t @ js '')'')"

text \<open>\<open>Array.isArray(rows)\<close>, \<open>rows.length\<close> and \<open>'affectedRows' in rows\<close>.\<close>

fun isArray :: "NativeRows \<Rightarrow> bool" where
  "isArray (RowArray _) = True"
| "isArray (Packet _) = False"

fun hasAffectedRows :: "NativeRows \<Rightarrow> bool" where
  "hasAffectedRows (RowArray _) = False"
| "hasAffectedRows (Packet _) = True"

fun rowData :: "NativeRows \<Rightarrow> RowDataPacket list" where
  "rowData (RowArray rs) = rs"
| "rowData (Packet _) = []"

text \<open>\<open>row[field.name]\<close>: a missing property reads as \<open>undefined\<close>.\<close>

definition getProp :: "RowDataPacket \<Rightarrow> jsstring \<Rightarrow> Cell" where
  "getProp row k = (case map_of row k of Some v \<Rightarrow> v | None \<Rightarrow> CUndefined)"

definition tabularResult :: "RowDataPacket list \<Rightarrow> FieldPacket list \<Rightarrow> int \<Rightarrow> QueryResult" where
  "tabularResult rd flds execTime =
     \<lparr>columns = Some (map (\<lambda>fld. \<lparr>colName = fieldName fld,
                 colType = getFieldTypeName (case fieldType fld of Some t \<Rightarrow> t | None \<Rightarrow> 0)\<rparr>)
                 flds),
      rows = Some (map (\<lambda>row. map (\<lambda>fld. getProp row (fieldName fld)) flds) rd),
      affectedRows = None, insertId = None, changedRows = None,
      rowCount = int (length rd), executionTime = execTime, truncated = Some False\<rparr>"

definition formatResult :: "NativeRows \<Rightarrow> FieldPacket list \<Rightarrow> int \<Rightarrow> QueryResult" where
  "formatResult nrows flds execTime =
     (if isArray nrows \<and> length (rowData nrows) \<ge> 0 \<and> \<not> hasAffectedRows nrows then
        tabularResult (rowData nrows) flds execTime
      else if hasAffectedRows nrows then
        (case nrows of
           Packet okPacket \<Rightarrow>
             \<lparr>columns = None, rows = None,
              affectedRows = Some (okAffectedRows okPacket),
              insertId = Some (case okInsertId okPacket of Some i \<Rightarrow> i | None \<Rightarrow> 0),
              changedRows = Some (case okChangedRows okPacket of Some i \<Rightarrow> i | None \<Rightarrow> 0),
              rowCount = okAffectedRows okPacket, executionTime = execTime,
              truncated = Some False\<rparr>
         | RowArray rs \<Rightarrow> tabularResult rs flds execTime)
      else if isArray nrows \<and> length (rowData nrows) > 0 then
        tabularResult (rowData nrows) flds execTime
      else
        \<lparr>columns = None, rows = None, affectedRows = None, insertId = None,
         changedRows = None, rowCount = 0, executionTime = execTime, truncated = Some False\<rparr>)"

text \<open>
  \<open>QueryExecutor.executeQuery\<close>. \<open>elapsed\<close> is the difference of the two \<open>Date.now()\<close>
  readings around the call. The result carries the pool calls made and the audit log.
\<close>

definition blockedMessage :: "ParseResult \<Rightarrow> jsstring" where
  "blockedMessage parseResult =
     js ''Query blocked: ''
     @ (case reason parseResult of Some r \<Rightarrow> r | None \<Rightarrow> js ''undefined'')
     @ [nl, nl]
     @ (case suggestion parseResult of Some sg \<Rightarrow> sg | None \<Rightarrow> [])"

definition executeQuery ::
  "(jsstring \<Rightarrow> jsstring) \<Rightarrow> PoolQuery \<Rightarrow> int \<Rightarrow> MySQLClient \<Rightarrow> OperationMode \<Rightarrow> jsstring
     \<Rightarrow> (Thrown + QueryResult) \<times> QueryOptions list \<times> jsstring list"
where
  "executeQuery toUpperCase poolQuery elapsed mysqlClient operationMode query =
     (case parseQueryLogged toUpperCase query operationMode of
        (parseResult, log) \<Rightarrow>
          if \<not> allowed parseResult then
            (Inl (newError (blockedMessage parseResult)), [], log)
          else
            (case clientExecuteQuery poolQuery mysqlClient query None of
               (Inr (nrows, flds), calls) \<Rightarrow>
                 (Inr (formatResult nrows flds elapsed), calls, log)
             | (Inl error, calls) \<Rightarrow>
                 (Inl (if instanceofError error
                       then error\<lparr>errMessage := errMessage error @ js '' (execution time: ''
                                      @ showInt elapsed @ js ''ms)''\<rparr>
                       else error), calls, log)))"

section \<open>Truncator (src/utils/formatters.ts, src/constants.ts)\<close>

definition CHARACTER_LIMIT :: nat where
  "CHARACTER_LIMIT = 25000"

text \<open>
  The warning of \<open>applyCharacterLimit\<close>, a template over \<open>CHARACTER_LIMIT\<close> and
  \<open>response.length\<close>. The warning sign is the two code units U+26A0 U+FE0F.
\<close>

definition truncationWarning :: "nat \<Rightarrow> jsstring" where
  "truncationWarning responseLength =
     [nl, nl] @ js ''---'' @ [nl] @ js ''**'' @ [0x26A0, 0xFE0F]
       @ js '' Response Truncated**'' @ [nl, nl]
     @ js ''The response was truncated at '' @ showNat CHARACTER_LIMIT @ js '' characters. ''
     @ js ''Original length was '' @ showNat responseLength @ js '' characters.'' @ [nl, nl]
     @ js ''**Suggestions to reduce response size:**'' @ [nl]
     @ js ''- Add a LIMIT clause to restrict the number of rows (e.g., LIMIT 100)'' @ [nl]
     @ js ''- Use WHERE clauses to filter data more specifically'' @ [nl]
     @ js ''- Select only necessary columns instead of using SELECT *'' @ [nl]
     @ js ''- Consider breaking your query into smaller, more focused queries'' @ [nl]"

definition applyCharacterLimit :: "jsstring \<Rightarrow> bool \<Rightarrow> jsstring" where
  "applyCharacterLimit response includeWarning =
     (if length response \<le> CHARACTER_LIMIT then response
      else
        let cut = take CHARACTER_LIMIT response in
        if \<not> includeWarning then cut
        else
          let warning = truncationWarning (length response);
              maxContentLength = int CHARACTER_LIMIT - int (length warning)
          in if maxContentLength > 0 \<and> int (length cut) > maxContentLength
             then take (nat maxContentLength) response @ warning
             else cut @ warning)"

section \<open>Error translator (src/utils/error-handlers.ts)\<close>

text \<open>\<open>a || b\<close> on an optional string: \<open>undefined\<close> and the empty string are falsy.\<close>

definition orDefault :: "jsstring option \<Rightarrow> jsstring \<Rightarrow> jsstring" where
  "orDefault v d = (case v of Some s \<Rightarrow> (if s = [] then d else s) | None \<Rightarrow> d)"

definition isMySQLError :: "Thrown \<Rightarrow> bool" where
  "isMySQLError e = (errCode e \<noteq> None)"

definition isTimeoutError :: "Thrown \<Rightarrow> bool" where
  "isTimeoutError e =
     (if instanceofError e
      then str_includes (errMessage e) (js ''timeout'') \<or> str_includes (errMessage e) (js ''ETIMEDOUT'')
      else False)"

definition handleUnknownError :: "Thrown \<Rightarrow> jsstring" where
  "handleUnknownError e =
     (if instanceofError e
      then js ''**Error: '' @ errName e @ js ''**'' @ [nl, nl] @ errMessage e @ [nl]
      else js ''**Unexpected error**'' @ [nl, nl] @ asString e @ [nl])"

text \<open>The text of the \<open>ER_LOCK_WAIT_TIMEOUT\<close> case of \<open>handleMySQLError\<close>.\<close>

definition lockWaitTimeoutMessage :: jsstring where
  "lockWaitTimeoutMessage =
     js ''**Error: Lock wait timeout exceeded**'' @ [nl, nl]
     @ js ''The query waited too long to acquire a table lock.'' @ [nl, nl]
     @ js ''**Suggestions:**'' @ [nl]
     @ js ''- Try the query again - another transaction may be holding the lock'' @ [nl]
     @ js ''- Check for long-running queries that might be blocking this operation'' @ [nl]
     @ js ''- Consider using smaller transactions'' @ [nl]
     @ js ''- Contact your database administrator if the issue persists'' @ [nl]"

definition handleMySQLError :: "Thrown \<Rightarrow> jsstring" where
  "handleMySQLError e =
     (case errCode e of
        None \<Rightarrow> handleUnknownError e
      | Some code \<Rightarrow>
          if code = js ''ER_NO_SUCH_TABLE'' then
            js ''**Error: Table does not exist**'' @ [nl, nl]
            @ orDefault (sqlMessage e) (js ''The specified table was not found.'')
            @ [nl, nl] @ js ''**Suggestions:**'' @ [nl]
            @ js ''- Verify the table name is spelled correctly'' @ [nl]
            @ js ''- Ensure you're using fully qualified names (database.table format)''
            @ [nl] @ js ''- Use SHOW TABLES FROM database_name to see available tables''
            @ [nl] @ js ''- Check that you have permissions to access this table'' @ [nl]
          else if code = js ''ER_BAD_DB_ERROR'' then
            js ''**Error: Database does not exist**'' @ [nl, nl]
            @ orDefault (sqlMessage e) (js ''The specified database was not found.'')
            @ [nl, nl] @ js ''**Suggestions:**'' @ [nl]
            @ js ''- Verify the database name is spelled correctly'' @ [nl]
            @ js ''- Use SHOW DATABASES to see available databases'' @ [nl]
            @ js ''- Check that you have permissions to access this database'' @ [nl]
          else if code = js ''ER_ACCESS_DENIED_ERROR'' \<or> code = js ''ER_TABLEACCESS_DENIED_ERROR'' \<or> code = js ''ER_DBACCESS_DENIED_ERROR'' then
            js ''**Error: Access denied**'' @ [nl, nl]
            @ orDefault (sqlMessage e) (js ''You do not have permission for this operation.'')
            @ [nl, nl]
            @ js ''Your MySQL user account does not have the required permissions for this operation.''
            @ [nl, nl] @ js ''**Suggestions:**'' @ [nl]
            @ js ''- Contact your database administrator to grant appropriate permissions''
            @ [nl] @ js ''- Verify you're connecting with the correct MySQL user account''
            @ [nl]
            @ js ''- Check that your user has been granted access to the specific database/table''
            @ [nl]
          else if code = js ''ER_PARSE_ERROR'' \<or> code = js ''ER_SYNTAX_ERROR'' then
            js ''**Error: SQL syntax error**'' @ [nl, nl]
            @ orDefault (sqlMessage e) (js ''There is an error in your SQL syntax.'')
            @ [nl, nl] @ js ''**Suggestions:**'' @ [nl]
            @ js ''- Check your query syntax carefully'' @ [nl]
            @ js ''- Ensure table names are fully qualified (database.table format)'' @ [nl]
            @ js ''- Verify column names and keywords are spelled correctly'' @ [nl]
            @ js ''- Make sure quotes and parentheses are balanced'' @ [nl]
          else if code = js ''ER_DUP_ENTRY'' then
            js ''**Error: Duplicate entry**'' @ [nl, nl]
            @ orDefault (sqlMessage e) (js ''A duplicate value was found.'') @ [nl, nl]
            @ js ''This typically occurs when trying to insert a row that violates a unique constraint or primary key.''
            @ [nl, nl] @ js ''**Suggestions:**'' @ [nl]
            @ js ''- Check for existing records before inserting'' @ [nl]
            @ js ''- Use INSERT IGNORE or REPLACE to handle duplicates'' @ [nl]
            @ js ''- Modify your data to ensure unique values'' @ [nl]
          else if code = js ''ER_NO_REFERENCED_ROW'' \<or> code = js ''ER_NO_REFERENCED_ROW_2'' then
            js ''**Error: Foreign key constraint violation**'' @ [nl, nl]
            @ orDefault (sqlMessage e) (js ''Referenced row does not exist.'') @ [nl, nl]
            @ js ''The operation violates a foreign key constraint - the referenced row must exist first.''
            @ [nl, nl] @ js ''**Suggestions:**'' @ [nl]
            @ js ''- Ensure the referenced record exists in the parent table'' @ [nl]
            @ js ''- Check that foreign key values match existing primary key values''
            @ [nl]
          else if code = js ''ER_ROW_IS_REFERENCED'' \<or> code = js ''ER_ROW_IS_REFERENCED_2'' then
            js ''**Error: Cannot delete or update**'' @ [nl, nl]
            @ orDefault (sqlMessage e) (js ''Row is referenced by other records.'')
            @ [nl, nl]
            @ js ''The row cannot be deleted or updated because other records reference it.''
            @ [nl, nl] @ js ''**Suggestions:**'' @ [nl]
            @ js ''- Delete child records first'' @ [nl]
            @ js ''- Consider using CASCADE delete if appropriate'' @ [nl]
            @ js ''- Update foreign keys in dependent tables'' @ [nl]
          else if code = js ''ER_LOCK_WAIT_TIMEOUT'' then
            lockWaitTimeoutMessage
          else if code = js ''ER_LOCK_DEADLOCK'' then
            js ''**Error: Deadlock detected**'' @ [nl, nl]
            @ orDefault (sqlMessage e) (js ''A deadlock was detected and the transaction was rolled back.'')
            @ [nl, nl] @ js ''**Suggestions:**'' @ [nl]
            @ js ''- Retry the operation - deadlocks are typically transient'' @ [nl]
            @ js ''- Consider reordering operations to avoid deadlocks'' @ [nl]
            @ js ''- Keep transactions small and quick'' @ [nl]
          else if code = js ''ER_TOO_MANY_CONNECTIONS'' then
            js ''**Error: Too many connections**'' @ [nl, nl]
            @ js ''The MySQL server has reached its connection limit.'' @ [nl, nl]
            @ js ''**Suggestions:**'' @ [nl] @ js ''- Wait a moment and try again'' @ [nl]
            @ js ''- Contact your database administrator to increase max_connections''
            @ [nl] @ js ''- Check for connection leaks in applications'' @ [nl]
          else if code = js ''ECONNREFUSED'' then
            js ''**Error: Connection refused**'' @ [nl, nl]
            @ js ''Unable to connect to the MySQL server.'' @ [nl, nl]
            @ js ''**Suggestions:**'' @ [nl] @ js ''- Verify the MySQL server is running''
            @ [nl] @ js ''- Check that MYSQL_HOST and MYSQL_PORT are correct'' @ [nl]
            @ js ''- Ensure there are no firewall rules blocking the connection'' @ [nl]
            @ js ''- Verify network connectivity to the database server'' @ [nl]
          else if code = js ''PROTOCOL_CONNECTION_LOST'' \<or> code = js ''ECONNRESET'' then
            js ''**Error: Connection lost**'' @ [nl, nl]
            @ js ''The connection to the MySQL server was lost.'' @ [nl, nl]
            @ js ''**Suggestions:**'' @ [nl] @ js ''- Check your network connection'' @ [nl]
            @ js ''- Verify the MySQL server is running'' @ [nl]
            @ js ''- Try the query again'' @ [nl]
            @ js ''- Check MySQL server logs for issues'' @ [nl]
          else
            js ''**MySQL Error ('' @ code @ js '')**'' @ [nl, nl]
            @ orDefault (sqlMessage e) (js ''An error occurred while executing the query.'')
            @ [nl, nl]
            @ (case errSql e of
                Some q \<Rightarrow> (if q = [] then []
                           else js ''**Query:**'' @ [nl] @ js ''```sql'' @ [nl] @ q @ [nl]
                                  @ js ''```'' @ [nl, nl])
              | None \<Rightarrow> [])
            @ js ''If this error persists, consult the MySQL documentation or contact your database administrator.''
            @ [nl])"

definition handleTimeoutError :: "nat \<Rightarrow> jsstring" where
  "handleTimeoutError queryTimeout =
     js ''**Error: Query execution timeout**'' @ [nl, nl]
     @ js ''The query exceeded the timeout limit of '' @ showNat queryTimeout @ js ''ms.''
     @ [nl, nl] @ js ''**Suggestions to resolve:**'' @ [nl]
     @ js ''- Add a LIMIT clause to reduce the result set size (e.g., LIMIT 100)'' @ [nl]
     @ js ''- Add WHERE clauses to filter data more specifically'' @ [nl]
     @ js ''- Select only necessary columns instead of using SELECT *'' @ [nl]
     @ js ''- Add indexes on columns used in WHERE and JOIN clauses'' @ [nl]
     @ js ''- Use EXPLAIN to analyze query performance'' @ [nl]
     @ js ''- Consider breaking complex queries into smaller operations'' @ [nl]
     @ js ''- Increase MYSQL_QUERY_TIMEOUT environment variable if necessary'' @ [nl]"

text \<open>\<open>Array.prototype.join\<close>.\<close>

fun join :: "jsstring \<Rightarrow> jsstring list \<Rightarrow> jsstring" where
  "join sep [] = []"
| "join sep [x] = x"
| "join sep (x # y # ys) = x @ sep @ join sep (y # ys)"

definition handleValidationError :: "(jsstring \<times> jsstring) list \<Rightarrow> jsstring" where
  "handleValidationError issues =
     js ''**Input validation error**'' @ [nl, nl]
     @ js ''The following validation errors occurred:'' @ [nl, nl]
     @ join [nl] (map (\<lambda>(path, msg). js ''- **'' @ path @ js ''**: '' @ msg) issues) @ [nl]"

definition handleQueryError :: "Thrown \<Rightarrow> nat \<Rightarrow> jsstring" where
  "handleQueryError e queryTimeout =
     (if isTimeoutError e then handleTimeoutError queryTimeout
      else (case zodIssues e of
              Some issues \<Rightarrow> handleValidationError issues
            | None \<Rightarrow>
                if isMySQLError e then handleMySQLError e
                else handleUnknownError e))"


section \<open>Result formatter (src/utils/formatters.ts)\<close>

text \<open>
  \<open>formatAsJSON\<close> builds the output object and hands it to \<open>JSON.stringify\<close>, which
  belongs to the runtime and is the parameter \<open>stringify\<close>.
\<close>

record JsonMetadata =
  metaRowCount :: int
  metaExecutionTime :: int
  metaTruncated :: bool
  metaAffectedRows :: "int option"
  metaInsertId :: "int option"
  metaChangedRows :: "int option"

record JsonOutput =
  outColumns :: "Column list"
  outRows :: "Cell list list"
  outMetadata :: JsonMetadata

definition jsonOutput :: "QueryResult \<Rightarrow> JsonOutput" where
  "jsonOutput result =
     \<lparr>outColumns = (case columns result of Some cs \<Rightarrow> cs | None \<Rightarrow> []),
      outRows = (case rows result of Some rs \<Rightarrow> rs | None \<Rightarrow> []),
      outMetadata =
        \<lparr>metaRowCount = rowCount result,
         metaExecutionTime = executionTime result,
         metaTruncated = (case truncated result of Some t \<Rightarrow> t | None \<Rightarrow> False),
         metaAffectedRows = affectedRows result,
         metaInsertId = insertId result,
         metaChangedRows = changedRows result\<rparr>\<rparr>"

definition formatAsJSON :: "(JsonOutput \<Rightarrow> jsstring) \<Rightarrow> QueryResult \<Rightarrow> jsstring" where
  "formatAsJSON stringify result = stringify (jsonOutput result)"

fun formatCell :: "Cell \<Rightarrow> jsstring" where
  "formatCell CNull = js ''*NULL*''"
| "formatCell CUndefined = js ''*undefined*''"
| "formatCell (CString v) = v"
| "formatCell (CNumber v) = v"
| "formatCell (CBoolean b) = (if b then js ''true'' else js ''false'')"
| "formatCell (CDate v) = v"
| "formatCell (CObject v) = v"
| "formatCell (COther v) = v"

definition formatMarkdownTable :: "Column list \<Rightarrow> Cell list list \<Rightarrow> jsstring" where
  "formatMarkdownTable cols rws =
     (if length cols = 0 \<or> length rws = 0 then js ''*(Empty result set)*''
      else
        js ''| '' @ join (js '' | '') (map colName cols) @ js '' |'' @ [nl]
        @ js ''| '' @ join (js '' | '') (map (\<lambda>_. js ''---'') cols) @ js '' |'' @ [nl]
        @ concat (map (\<lambda>row. js ''| '' @ join (js '' | '') (map formatCell row) @ js '' |''
                                @ [nl]) rws))"

definition formatDMLResult :: "QueryResult \<Rightarrow> jsstring" where
  "formatDMLResult result =
     js ''**Operation completed successfully**'' @ [nl, nl]
     @ (case affectedRows result of
          Some n \<Rightarrow> js ''- Rows affected: '' @ showInt n @ [nl]
        | None \<Rightarrow> [])
     @ (case insertId result of
          Some n \<Rightarrow> (if n > 0 then js ''- Insert ID: '' @ showInt n @ [nl] else [])
        | None \<Rightarrow> [])
     @ (case changedRows result of
          Some n \<Rightarrow> js ''- Rows changed: '' @ showInt n @ [nl]
        | None \<Rightarrow> [])
     @ js ''- Execution time: '' @ showInt (executionTime result) @ js ''ms'' @ [nl]"

text \<open>The second parameter (\<open>_queryType\<close> in the source) is not read.\<close>

definition formatAsMarkdown :: "QueryResult \<Rightarrow> QueryType \<Rightarrow> jsstring" where
  "formatAsMarkdown result qt =
     (case (columns result, rows result) of
        (Some cols, Some rws) \<Rightarrow>
          (if length rws > 0 then
             formatMarkdownTable cols rws @ [nl, nl]
             @ js ''**Query completed:** '' @ showInt (rowCount result)
             @ js '' row(s) returned in '' @ showInt (executionTime result) @ js ''ms'' @ [nl]
           else
             js ''**No rows returned**'' @ [nl, nl]
             @ js ''Query completed in '' @ showInt (executionTime result) @ js ''ms'' @ [nl])
      | _ \<Rightarrow>
          (if affectedRows result \<noteq> None then formatDMLResult result
           else
             js ''**Query completed** in '' @ showInt (executionTime result) @ js ''ms'' @ [nl]
             @ (if rowCount result > 0
                then showInt (rowCount result) @ js '' row(s) affected'' @ [nl] else [])))"

section \<open>Query tool (src/tools/query-tool.ts)\<close>

text \<open>
  \<open>handleQueryTool\<close>. \<open>QueryInputSchema.parse\<close> (the Zod library) is the parameter
  \<open>schemaParse\<close>: it throws a \<open>ZodError\<close> or returns the validated input, defaults filled.
  The function returns the text of the response and the pool calls made.
\<close>

record QueryInput =
  inputQuery :: jsstring
  inputResponseFormat :: jsstring

definition handleQueryTool ::
  "('a \<Rightarrow> Thrown + QueryInput) \<Rightarrow> (jsstring \<Rightarrow> jsstring) \<Rightarrow> (JsonOutput \<Rightarrow> jsstring)
     \<Rightarrow> PoolQuery \<Rightarrow> int \<Rightarrow> MySQLClient \<Rightarrow> OperationMode \<Rightarrow> 'a \<Rightarrow> nat
     \<Rightarrow> jsstring \<times> QueryOptions list"
where
  "handleQueryTool schemaParse toUpperCase stringify poolQuery elapsed mysqlClient operationMode
      args timeout =
     (case schemaParse args of
        Inl error \<Rightarrow> (handleQueryError error timeout, [])
      | Inr input \<Rightarrow>
          (case executeQuery toUpperCase poolQuery elapsed mysqlClient operationMode
                  (inputQuery input) of
             (Inl error, calls, log) \<Rightarrow> (handleQueryError error timeout, calls)
           | (Inr result, calls, log) \<Rightarrow>
               let formatted =
                     (if inputResponseFormat input = js ''json''
                      then formatAsJSON stringify result
                      else formatAsMarkdown result
                             (if columns result \<noteq> None then SELECT else INSERT));
                   finalResponse = applyCharacterLimit formatted True
               in (finalResponse, calls)))"

section \<open>The specification's wording\<close>

subsection \<open>The decision order as the specification words it\<close>

definition AlwaysAllowed :: "QueryType set" where
  "AlwaysAllowed = {SELECT, SHOW, DESCRIBE, EXPLAIN}"

definition NeverAllowed :: "QueryType set" where
  "NeverAllowed = {DROP, TRUNCATE, GRANT, REVOKE, FLUSH, KILL, LOAD_DATA}"

definition WriteModeAllowed :: "QueryType set" where
  "WriteModeAllowed =
     {INSERT, UPDATE, DELETE, REPLACE, START_TRANSACTION, COMMIT, ROLLBACK, SAVEPOINT}"

definition specVerdict :: "QueryType \<Rightarrow> OperationMode \<Rightarrow> bool" where
  "specVerdict kind mode =
     (if kind \<in> NeverAllowed then False
      else if kind \<in> AlwaysAllowed then True
      else if mode = WRITE_ENABLED \<and> kind \<in> WriteModeAllowed then True
      else False)"

subsection \<open>The keyword table as the specification words it\<close>

definition specKeywordTable :: "(string \<times> QueryType) list" where
  "specKeywordTable =
     [(''SELECT'', SELECT), (''INSERT'', INSERT), (''UPDATE'', UPDATE), (''DELETE'', DELETE),
      (''REPLACE'', REPLACE), (''CREATE'', CREATE), (''ALTER'', ALTER), (''DROP'', DROP),
      (''TRUNCATE'', TRUNCATE), (''START'', START_TRANSACTION), (''BEGIN'', START_TRANSACTION),
      (''COMMIT'', COMMIT), (''ROLLBACK'', ROLLBACK), (''SAVEPOINT'', SAVEPOINT),
      (''GRANT'', GRANT), (''REVOKE'', REVOKE), (''FLUSH'', FLUSH), (''KILL'', KILL),
      (''LOAD'', LOAD_DATA), (''SHOW'', SHOW), (''DESCRIBE'', DESCRIBE), (''DESC'', DESCRIBE),
      (''EXPLAIN'', EXPLAIN), (''USE'', USE), (''SET'', SET)]"

definition specClassify :: "jsstring \<Rightarrow> QueryType" where
  "specClassify token =
     (case map_of (map (\<lambda>(k, v). (js k, v)) specKeywordTable) token of
        Some kind \<Rightarrow> kind
      | None \<Rightarrow> UNKNOWN)"

text \<open>The first whitespace-delimited token of a text: leading whitespace skipped.\<close>

definition firstToken :: "jsstring \<Rightarrow> jsstring" where
  "firstToken s = takeWhile (\<lambda>c. \<not> isSpace c) (dropWhile isSpace s)"

definition leadingSpace :: "jsstring \<Rightarrow> bool" where
  "leadingSpace s = (case s of [] \<Rightarrow> False | c # _ \<Rightarrow> isSpace c)"

subsection \<open>Whole-word keywords as the specification words them\<close>





subsection \<open>Decimal numerals\<close>

text \<open>The number that a string of decimal digits denotes.\<close>

definition decimalValue :: "jsstring \<Rightarrow> nat" where
  "decimalValue ds = foldl (\<lambda>a c. 10 * a + (unat c - 48)) 0 ds"

subsection \<open>Normalization as the specification words it\<close>

text \<open>A line with its \<open>--\<close>-to-end-of-line span removed: the text before the first \<open>--\<close>.\<close>

fun cutAtDashes :: "jsstring \<Rightarrow> jsstring" where
  "cutAtDashes [] = []"
| "cutAtDashes [c] = [c]"
| "cutAtDashes (c # d # cs) =
     (if c = ch CHR ''-'' \<and> d = ch CHR ''-'' then [] else c # cutAtDashes (d # cs))"

text \<open>The maximal runs of non-whitespace code units of a text, in order.\<close>

function tokens :: "jsstring \<Rightarrow> jsstring list" where
  "tokens [] = []"
| "tokens (c # cs) =
     (if isSpace c then tokens cs
      else (c # takeWhile (\<lambda>x. \<not> isSpace x) cs) # tokens (dropWhile (\<lambda>x. \<not> isSpace x) cs))"
  by pat_completeness auto
termination
  by (relation "measure length") (auto simp: le_imp_less_Suc length_dropWhile_le)

section \<open>Authorization\<close>

lemma isAllowed_specVerdict: "isAllowed kind mode = specVerdict kind mode"
  by (cases kind; cases mode)
     (simp_all add: isAllowed_def specVerdict_def arr_includes_def ALWAYS_ALLOWED_def
        NEVER_ALLOWED_def WRITE_MODE_ALLOWED_def AlwaysAllowed_def NeverAllowed_def
        WriteModeAllowed_def)

text \<open>
  C1. For every operation kind and both modes, \<open>isAllowed\<close> returns the verdict of the
  four-step decision order of the specification over its three policy sets: the code tests
  the always-allowed list before the never-allowed list, and the two orders agree because
  the lists are disjoint. Every never-allowed kind is rejected under both modes, every
  write-mode kind is allowed exactly in write mode, and Unknown, Create, Alter, Use and Set
  are rejected under both modes.
\<close>

theorem C1_isAllowed_decision_order:
  "isAllowed kind mode = specVerdict kind mode
   \<and> (kind \<in> NeverAllowed \<longrightarrow> \<not> isAllowed kind mode)
   \<and> (kind \<in> AlwaysAllowed \<longrightarrow> isAllowed kind mode)
   \<and> (kind \<in> WriteModeAllowed \<longrightarrow> (isAllowed kind mode \<longleftrightarrow> mode = WRITE_ENABLED))
   \<and> (kind \<in> {UNKNOWN, CREATE, ALTER, USE, SET} \<longrightarrow> \<not> isAllowed kind mode)"
  unfolding isAllowed_specVerdict
  by (cases kind; cases mode)
     (simp_all add: specVerdict_def AlwaysAllowed_def NeverAllowed_def WriteModeAllowed_def)

theorem C1_isAllowed_decision_order_witness:
  "DROP \<in> NeverAllowed \<and> \<not> isAllowed DROP WRITE_ENABLED
   \<and> SELECT \<in> AlwaysAllowed \<and> isAllowed SELECT READ_ONLY
   \<and> INSERT \<in> WriteModeAllowed \<and> isAllowed INSERT WRITE_ENABLED
   \<and> \<not> isAllowed INSERT READ_ONLY
   \<and> \<not> isAllowed UNKNOWN WRITE_ENABLED"
  using C1_isAllowed_decision_order [of DROP WRITE_ENABLED]
    C1_isAllowed_decision_order [of SELECT READ_ONLY]
    C1_isAllowed_decision_order [of INSERT WRITE_ENABLED]
    C1_isAllowed_decision_order [of INSERT READ_ONLY]
    C1_isAllowed_decision_order [of UNKNOWN WRITE_ENABLED]
  by (auto simp add: NeverAllowed_def AlwaysAllowed_def WriteModeAllowed_def)

section \<open>Evaluation on concrete inputs\<close>

lemmas lexer_defs =
  js_def ch_def nl_def splitStatements_def normalizeQuery_def removeComments_def
  normalizeWhitespace_def trim_def isSpace_def

lemmas classifier_defs =
  detectQueryType_def extractFirstKeyword_def cteLookahead_def firstWord_def
  asciiToUpperCase_def startsWith_def cteAt_def
  dmlAt_def matchWordAt_def wordBoundary_def wordBefore_def wordAfter_def isWordChar_def
  DML_KEYWORDS_def keywordTable_def

lemmas policy_defs =
  isAllowed_def arr_includes_def ALWAYS_ALLOWED_def NEVER_ALLOWED_def WRITE_MODE_ALLOWED_def

section \<open>Truncation bound\<close>

lemma length_js [simp]: "length (js s) = length s"
  by (simp add: js_def)

lemma length_showNat_le: "0 < k \<Longrightarrow> n < 10 ^ k \<Longrightarrow> length (showNat n) \<le> k"
proof (induction k arbitrary: n)
  case 0
  then show ?case by simp
next
  case (Suc k)
  show ?case
  proof (cases "n < 10")
    case True
    then show ?thesis by (simp add: showNat.simps [of n])
  next
    case False
    then have k: "0 < k" using Suc.prems by (cases k) auto
    have "n div 10 < 10 ^ k" using Suc.prems by (simp add: less_mult_imp_div_less mult.commute)
    then have "length (showNat (n div 10)) \<le> k" using Suc.IH k by blast
    then show ?thesis using False by (simp add: showNat.simps [of n])
  qed
qed

lemma length_showNat_pos: "0 < length (showNat n)"
  by (simp add: showNat.simps [of n])

lemma showNat_limit: "showNat CHARACTER_LIMIT = js ''25000''"
  by (simp add: CHARACTER_LIMIT_def showNat.simps js_def digit_def)

lemma length_truncationWarning:
  "length (truncationWarning n) = 403 + length (showNat n)"
  by (simp add: truncationWarning_def showNat_limit)

lemma showNat_js_length:
  assumes "n < 2 ^ 53"
  shows "length (showNat n) \<le> 16"
proof -
  have "(2::nat) ^ 53 < 10 ^ 16" by simp
  then have "n < 10 ^ 16" using assms by linarith
  then show ?thesis using length_showNat_le [of 16 n] by simp
qed

lemma applyCharacterLimit_truncates:
  assumes big: "CHARACTER_LIMIT < length response" and js: "length response < 2 ^ 53"
  shows "applyCharacterLimit response True =
           take (CHARACTER_LIMIT - length (truncationWarning (length response))) response
             @ truncationWarning (length response)"
    and "length (truncationWarning (length response)) < CHARACTER_LIMIT"
proof -
  let ?w = "truncationWarning (length response)"
  have lw: "length ?w \<le> 419"
    using showNat_js_length [OF js] by (simp add: length_truncationWarning)
  then show lt: "length ?w < CHARACTER_LIMIT" by (simp add: CHARACTER_LIMIT_def)
  have m: "int CHARACTER_LIMIT - int (length ?w) > 0" using lt by simp
  have c: "int (length (take CHARACTER_LIMIT response)) > int CHARACTER_LIMIT - int (length ?w)"
    using big length_truncationWarning [of "length response"] by simp
  have n: "nat (int CHARACTER_LIMIT - int (length ?w)) = CHARACTER_LIMIT - length ?w"
    by simp
  show "applyCharacterLimit response True =
           take (CHARACTER_LIMIT - length ?w) response @ ?w"
    using big m c unfolding applyCharacterLimit_def Let_def n by simp
qed

lemma applyCharacterLimit_length:
  assumes "CHARACTER_LIMIT < length response" "length response < 2 ^ 53"
  shows "length (applyCharacterLimit response True) = CHARACTER_LIMIT"
  using applyCharacterLimit_truncates [OF assms] assms(1) by simp

text \<open>
  The decimal rendering: the digits of \<open>showNat n\<close> read back as \<open>n\<close>, they are decimal
  digits, and a positive number has no leading zero.
\<close>

lemma unat_digit: "d < 10 \<Longrightarrow> unat (digit d) = 48 + d"
  by (simp add: digit_def unat_of_nat del: of_nat_add)

lemma decimalValue_snoc: "decimalValue (ds @ [c]) = 10 * decimalValue ds + (unat c - 48)"
  by (simp add: decimalValue_def)

lemma decimalValue_showNat: "decimalValue (showNat n) = n"
proof (induction n rule: showNat.induct)
  case (1 n)
  show ?case
  proof (cases "n < 10")
    case True
    then show ?thesis by (simp add: showNat.simps [of n] decimalValue_def unat_digit)
  next
    case False
    then have "decimalValue (showNat (n div 10)) = n div 10" using 1 by simp
    then show ?thesis using False
      by (simp add: showNat.simps [of n] decimalValue_snoc unat_digit)
  qed
qed

lemma digit_decimal: "d < 10 \<Longrightarrow> digit d \<in> set (js ''0123456789'')"
proof -
  assume "d < 10"
  then have "d \<in> set [0, 1, 2, 3, 4, 5, 6, 7, 8, 9]" by (simp del: One_nat_def) arith
  then show ?thesis by (auto simp: digit_def js_def)
qed

lemma showNat_decimal: "set (showNat n) \<subseteq> set (js ''0123456789'')"
proof (induction n rule: showNat.induct)
  case (1 n)
  show ?case
  proof (cases "n < 10")
    case True
    then show ?thesis using digit_decimal [of n] by (simp add: showNat.simps [of n])
  next
    case False
    then have "set (showNat (n div 10)) \<subseteq> set (js ''0123456789'')" using 1 by simp
    then show ?thesis using False digit_decimal [of "n mod 10"]
      by (simp add: showNat.simps [of n])
  qed
qed

lemma showNat_no_leading_zero: "0 < n \<Longrightarrow> hd (showNat n) \<noteq> ch CHR ''0''"
proof (induction n rule: showNat.induct)
  case (1 n)
  show ?case
  proof (cases "n < 10")
    case True
    then have "unat (digit n) = 48 + n" by (rule unat_digit)
    moreover have "unat (ch CHR ''0'') = 48" by (simp add: ch_def)
    ultimately have "digit n \<noteq> ch CHR ''0''" using "1.prems" by auto
    then show ?thesis using True by (simp add: showNat.simps [of n])
  next
    case False
    then have "0 < n div 10" by simp
    then have "hd (showNat (n div 10)) \<noteq> ch CHR ''0''" using 1 False by simp
    moreover have "showNat (n div 10) \<noteq> []" using length_showNat_pos [of "n div 10"] by auto
    ultimately show ?thesis using False by (simp add: showNat.simps [of n])
  qed
qed

lemma truncationWarning_text:
  "truncationWarning n =
     [0x0A, 0x0A] @ js ''---'' @ [0x0A] @ js ''**'' @ [0x26A0, 0xFE0F]
       @ js '' Response Truncated**'' @ [0x0A, 0x0A]
     @ js ''The response was truncated at 25000 characters. Original length was ''
     @ showNat n @ js '' characters.'' @ [0x0A, 0x0A]
     @ js ''**Suggestions to reduce response size:**'' @ [0x0A]
     @ js ''- Add a LIMIT clause to restrict the number of rows (e.g., LIMIT 100)'' @ [0x0A]
     @ js ''- Use WHERE clauses to filter data more specifically'' @ [0x0A]
     @ js ''- Select only necessary columns instead of using SELECT *'' @ [0x0A]
     @ js ''- Consider breaking your query into smaller, more focused queries'' @ [0x0A]"
  by (simp add: truncationWarning_def showNat_limit nl_def ch_def js_def)

text \<open>
  C2. For every string a JavaScript engine can hold (at most \<open>2^53 - 1\<close> code units),
  the output of \<open>applyCharacterLimit\<close> with the warning enabled is at most 25000 code
  units long; an input within the limit is returned unchanged; a longer input gives
  exactly 25000 code units: a prefix of the input followed by the truncation notice,
  written out below, which states the limit, the original length in decimal and the four
  suggestions to reduce the response size.
\<close>

theorem C2_character_limit:
  assumes "length response < 2 ^ 53"
  shows "length (applyCharacterLimit response True) \<le> 25000
       \<and> (length response \<le> 25000 \<longrightarrow> applyCharacterLimit response True = response)
       \<and> (25000 < length response \<longrightarrow>
            length (applyCharacterLimit response True) = 25000
            \<and> applyCharacterLimit response True =
                take (25000 - (403 + length (showNat (length response)))) response
                @ [0x0A, 0x0A] @ js ''---'' @ [0x0A] @ js ''**'' @ [0x26A0, 0xFE0F]
                  @ js '' Response Truncated**'' @ [0x0A, 0x0A]
                @ js ''The response was truncated at 25000 characters. Original length was ''
                @ showNat (length response) @ js '' characters.'' @ [0x0A, 0x0A]
                @ js ''**Suggestions to reduce response size:**'' @ [0x0A]
                @ js ''- Add a LIMIT clause to restrict the number of rows (e.g., LIMIT 100)'' @ [0x0A]
                @ js ''- Use WHERE clauses to filter data more specifically'' @ [0x0A]
                @ js ''- Select only necessary columns instead of using SELECT *'' @ [0x0A]
                @ js ''- Consider breaking your query into smaller, more focused queries'' @ [0x0A]
            \<and> decimalValue (showNat (length response)) = length response
            \<and> set (showNat (length response)) \<subseteq> set (js ''0123456789'')
            \<and> hd (showNat (length response)) \<noteq> ch CHR ''0'')"
proof (cases "length response \<le> 25000")
  case True
  then show ?thesis by (simp add: applyCharacterLimit_def CHARACTER_LIMIT_def)
next
  case False
  then have big: "CHARACTER_LIMIT < length response" by (simp add: CHARACTER_LIMIT_def)
  note eq = applyCharacterLimit_truncates(1) [OF big assms]
  have len: "length (applyCharacterLimit response True) = 25000"
    using applyCharacterLimit_length [OF big assms] by (simp add: CHARACTER_LIMIT_def)
  have notice: "applyCharacterLimit response True =
                take (25000 - (403 + length (showNat (length response)))) response
                @ [0x0A, 0x0A] @ js ''---'' @ [0x0A] @ js ''**'' @ [0x26A0, 0xFE0F]
                  @ js '' Response Truncated**'' @ [0x0A, 0x0A]
                @ js ''The response was truncated at 25000 characters. Original length was ''
                @ showNat (length response) @ js '' characters.'' @ [0x0A, 0x0A]
                @ js ''**Suggestions to reduce response size:**'' @ [0x0A]
                @ js ''- Add a LIMIT clause to restrict the number of rows (e.g., LIMIT 100)'' @ [0x0A]
                @ js ''- Use WHERE clauses to filter data more specifically'' @ [0x0A]
                @ js ''- Select only necessary columns instead of using SELECT *'' @ [0x0A]
                @ js ''- Consider breaking your query into smaller, more focused queries'' @ [0x0A]"
    unfolding eq length_truncationWarning CHARACTER_LIMIT_def
    by (simp only: truncationWarning_text)
  have pos: "0 < length response" using big by arith
  show ?thesis
    using False len notice decimalValue_showNat [of "length response"]
      showNat_decimal [of "length response"] showNat_no_leading_zero [OF pos]
    by (intro conjI impI) simp_all
qed

theorem C2_character_limit_witness:
  "length (replicate 40000 (0x78 :: jschar)) < 2 ^ 53
   \<and> 25000 < length (replicate 40000 (0x78 :: jschar))
   \<and> length (applyCharacterLimit (replicate 40000 0x78) True) = 25000
   \<and> applyCharacterLimit (replicate 40000 0x78) True =
       replicate 24592 0x78
       @ [0x0A, 0x0A] @ js ''---'' @ [0x0A] @ js ''**'' @ [0x26A0, 0xFE0F]
         @ js '' Response Truncated**'' @ [0x0A, 0x0A]
       @ js ''The response was truncated at 25000 characters. Original length was 40000 characters.''
       @ [0x0A, 0x0A]
       @ js ''**Suggestions to reduce response size:**'' @ [0x0A]
       @ js ''- Add a LIMIT clause to restrict the number of rows (e.g., LIMIT 100)'' @ [0x0A]
       @ js ''- Use WHERE clauses to filter data more specifically'' @ [0x0A]
       @ js ''- Select only necessary columns instead of using SELECT *'' @ [0x0A]
       @ js ''- Consider breaking your query into smaller, more focused queries'' @ [0x0A]
   \<and> length (js ''ok'') \<le> 25000
   \<and> applyCharacterLimit (js ''ok'') True = js ''ok''"
proof -
  have s: "showNat 40000 = js ''40000''" by (simp add: showNat.simps js_def digit_def)
  have l: "length (replicate 40000 (0x78 :: jschar)) < 2 ^ 53" by simp
  have b: "25000 < length (replicate 40000 (0x78 :: jschar))" by simp
  note t = C2_character_limit [OF l]
  have n: "length (applyCharacterLimit (replicate 40000 0x78) True) = 25000"
    using t b by blast
  have "applyCharacterLimit (replicate 40000 0x78) True =
      take (25000 - (403 + length (showNat (length (replicate 40000 (0x78 :: jschar))))))
        (replicate 40000 0x78)
       @ [0x0A, 0x0A] @ js ''---'' @ [0x0A] @ js ''**'' @ [0x26A0, 0xFE0F]
         @ js '' Response Truncated**'' @ [0x0A, 0x0A]
       @ js ''The response was truncated at 25000 characters. Original length was ''
       @ showNat (length (replicate 40000 (0x78 :: jschar))) @ js '' characters.'' @ [0x0A, 0x0A]
       @ js ''**Suggestions to reduce response size:**'' @ [0x0A]
       @ js ''- Add a LIMIT clause to restrict the number of rows (e.g., LIMIT 100)'' @ [0x0A]
       @ js ''- Use WHERE clauses to filter data more specifically'' @ [0x0A]
       @ js ''- Select only necessary columns instead of using SELECT *'' @ [0x0A]
       @ js ''- Consider breaking your query into smaller, more focused queries'' @ [0x0A]"
    using t b by blast
  then have x: "applyCharacterLimit (replicate 40000 0x78) True =
       replicate 24592 0x78
       @ [0x0A, 0x0A] @ js ''---'' @ [0x0A] @ js ''**'' @ [0x26A0, 0xFE0F]
         @ js '' Response Truncated**'' @ [0x0A, 0x0A]
       @ js ''The response was truncated at 25000 characters. Original length was 40000 characters.''
       @ [0x0A, 0x0A]
       @ js ''**Suggestions to reduce response size:**'' @ [0x0A]
       @ js ''- Add a LIMIT clause to restrict the number of rows (e.g., LIMIT 100)'' @ [0x0A]
       @ js ''- Use WHERE clauses to filter data more specifically'' @ [0x0A]
       @ js ''- Select only necessary columns instead of using SELECT *'' @ [0x0A]
       @ js ''- Consider breaking your query into smaller, more focused queries'' @ [0x0A]"
    by (simp add: s js_def)
  have k: "length (js ''ok'') \<le> 25000" by simp
  have l2: "length (js ''ok'') < 2 ^ 53" by simp
  have o: "applyCharacterLimit (js ''ok'') True = js ''ok''"
    using C2_character_limit [OF l2] k by blast
  show ?thesis by (intro conjI l b n x k o)
qed

section \<open>Classification\<close>








lemma dmlAt_keyword: "dmlAt prev rest = Some kw \<Longrightarrow> kw \<in> set DML_KEYWORDS"
  unfolding dmlAt_def by (auto simp: find_Some_iff)

lemma findDml_keyword: "findDml prev rest = Some kw \<Longrightarrow> kw \<in> set DML_KEYWORDS"
  by (induction prev rest rule: findDml.induct) (auto split: option.splits dest: dmlAt_keyword)

lemma cteAt_keyword: "cteAt prev rest = Some kw \<Longrightarrow> kw \<in> set DML_KEYWORDS"
  by (auto simp: cteAt_def split: if_splits dest: findDml_keyword)

lemma matchCte_keyword: "matchCte prev rest = Some kw \<Longrightarrow> kw \<in> set DML_KEYWORDS"
  by (induction prev rest rule: matchCte.induct) (auto split: option.splits dest: cteAt_keyword)

lemma cteLookahead_keyword: "cteLookahead upper = Some kw \<Longrightarrow> kw \<in> set DML_KEYWORDS"
  by (auto simp: cteLookahead_def split: if_splits dest: matchCte_keyword)











subsection \<open>The lookahead, position by position\<close>



























text \<open>
  C6. For a unit whose first token is \<open>WITH\<close> the classifier does what the claim says
  (\<open>detectQueryType_introducer\<close>). But the lookahead is guarded by
  \<open>upper.startsWith('WITH')\<close>, a test on the first four code units and not on the first
  token, and the expression is not anchored at the start: the unit
  \<open>WITHOUT WITH SELECT 1\<close>, whose first token is \<open>WITHOUT\<close> (Unknown in the table), is
  classified by the lookahead as Select and is allowed in read-only mode.
\<close>

theorem C6_lookahead_without_introducer:
  "firstToken (asciiToUpperCase (js ''WITHOUT WITH SELECT 1'')) = js ''WITHOUT''
   \<and> specClassify (js ''WITHOUT'') = UNKNOWN
   \<and> cteLookahead (asciiToUpperCase (js ''WITHOUT WITH SELECT 1'')) = Some (js ''SELECT'')
   \<and> detectQueryType asciiToUpperCase (js ''WITHOUT WITH SELECT 1'') = SELECT
   \<and> isAllowed (detectQueryType asciiToUpperCase (js ''WITHOUT WITH SELECT 1'')) READ_ONLY"
  by (simp add: lexer_defs classifier_defs policy_defs firstToken_def specClassify_def
      specKeywordTable_def)

section \<open>Multi-statement requests\<close>

lemma checkStatements_first_reject:
  "\<forall>p\<in>set pre. isAllowed (detectQueryType up p) mode \<Longrightarrow>
   \<not> isAllowed (detectQueryType up u) mode \<Longrightarrow>
   checkStatements up mode (pre @ u # post) =
     (Some (blockedVerdict (detectQueryType up u) mode),
      map (\<lambda>s. logQuery s mode True (Some (detectQueryType up s))) pre
        @ [logQuery u mode False (Some (detectQueryType up u))])"
  by (induction pre) (simp_all add: Let_def)

lemma checkStatements_all_allowed:
  "\<forall>u\<in>set us. isAllowed (detectQueryType up u) mode \<Longrightarrow>
   checkStatements up mode us =
     (None, map (\<lambda>s. logQuery s mode True (Some (detectQueryType up s))) us)"
  by (induction us) (simp_all add: Let_def)

lemma parseQueryLogged_accept:
  assumes "splitStatements (normalizeQuery query) = first # rest"
    and "\<forall>u\<in>set (first # rest). isAllowed (detectQueryType up u) mode"
  shows "parseQueryLogged up query mode =
           (\<lparr>queryType = detectQueryType up first, allowed = True,
             reason = None, suggestion = None\<rparr>,
            map (\<lambda>s. logQuery s mode True (Some (detectQueryType up s))) (first # rest))"
  unfolding parseQueryLogged_def Let_def assms(1)
  using checkStatements_all_allowed [OF assms(2)] by (simp del: checkStatements.simps)

lemma parseQueryLogged_reject:
  assumes "splitStatements (normalizeQuery query) = pre @ u # post"
    and "\<forall>p\<in>set pre. isAllowed (detectQueryType up p) mode"
    and "\<not> isAllowed (detectQueryType up u) mode"
  shows "parseQueryLogged up query mode =
           (blockedVerdict (detectQueryType up u) mode,
            map (\<lambda>s. logQuery s mode True (Some (detectQueryType up s))) pre
              @ [logQuery u mode False (Some (detectQueryType up u))])"
proof -
  obtain first rest where fr: "pre @ u # post = first # rest" by (cases pre) auto
  have cs: "checkStatements up mode (first # rest) =
     (Some (blockedVerdict (detectQueryType up u) mode),
      map (\<lambda>s. logQuery s mode True (Some (detectQueryType up s))) pre
        @ [logQuery u mode False (Some (detectQueryType up u))])"
    using checkStatements_first_reject [OF assms(2,3), of post] by (simp only: fr)
  show ?thesis
    unfolding parseQueryLogged_def Let_def assms(1) fr list.case cs by simp
qed

text \<open>
  C5. For a request with at least one statement unit: the batch is allowed exactly when
  every unit is allowed; the units are checked (and logged) in source order up to and
  including the first rejecting unit, and the overall verdict is that unit's: its kind,
  not allowed, the reason and the suggestion that \<open>explainBlocked\<close> and \<open>suggestFix\<close> give
  for that kind; when no unit rejects, the overall kind is the kind of the first unit
  and every unit has been checked in order.
\<close>

theorem C5_batch_verdict:
  assumes units: "splitStatements (normalizeQuery query) = units" and ne: "units \<noteq> []"
  shows "(allowed (parseQuery up query mode) \<longleftrightarrow>
            (\<forall>u\<in>set units. isAllowed (detectQueryType up u) mode))
       \<and> (\<forall>pre u post.
            units = pre @ u # post
            \<and> (\<forall>p\<in>set pre. isAllowed (detectQueryType up p) mode)
            \<and> \<not> isAllowed (detectQueryType up u) mode
            \<longrightarrow> parseQueryLogged up query mode =
                  (\<lparr>queryType = detectQueryType up u, allowed = False,
                    reason = Some (explainBlocked (detectQueryType up u) mode),
                    suggestion = Some (suggestFix (detectQueryType up u) mode)\<rparr>,
                   map (\<lambda>s. logQuery s mode True (Some (detectQueryType up s))) pre
                     @ [logQuery u mode False (Some (detectQueryType up u))]))
       \<and> ((\<forall>u\<in>set units. isAllowed (detectQueryType up u) mode)
            \<longrightarrow> parseQueryLogged up query mode =
                  (\<lparr>queryType = detectQueryType up (hd units), allowed = True,
                    reason = None, suggestion = None\<rparr>,
                   map (\<lambda>s. logQuery s mode True (Some (detectQueryType up s))) units))"
proof -
  obtain first rest where fr: "units = first # rest" using ne by (cases units) auto
  have rej: "parseQueryLogged up query mode =
        (\<lparr>queryType = detectQueryType up u, allowed = False,
          reason = Some (explainBlocked (detectQueryType up u) mode),
          suggestion = Some (suggestFix (detectQueryType up u) mode)\<rparr>,
         map (\<lambda>s. logQuery s mode True (Some (detectQueryType up s))) pre
           @ [logQuery u mode False (Some (detectQueryType up u))])"
    if "units = pre @ u # post" "\<forall>p\<in>set pre. isAllowed (detectQueryType up p) mode"
       "\<not> isAllowed (detectQueryType up u) mode" for pre u post
    using that parseQueryLogged_reject [of query pre u post up mode] units
    by (simp add: blockedVerdict_def)
  have ok: "parseQueryLogged up query mode =
        (\<lparr>queryType = detectQueryType up (hd units), allowed = True,
          reason = None, suggestion = None\<rparr>,
         map (\<lambda>s. logQuery s mode True (Some (detectQueryType up s))) units)"
    if "\<forall>u\<in>set units. isAllowed (detectQueryType up u) mode"
    using that parseQueryLogged_accept [of query first rest up mode] units fr by simp
  have iff: "allowed (parseQuery up query mode) \<longleftrightarrow>
            (\<forall>u\<in>set units. isAllowed (detectQueryType up u) mode)"
  proof (cases "\<forall>u\<in>set units. isAllowed (detectQueryType up u) mode")
    case True
    then show ?thesis using ok by (simp add: parseQuery_def)
  next
    case False
    then obtain pre u post where "units = pre @ u # post"
      "\<not> isAllowed (detectQueryType up u) mode"
      "\<forall>p\<in>set pre. isAllowed (detectQueryType up p) mode"
      using split_list_first_prop [of units "\<lambda>u. \<not> isAllowed (detectQueryType up u) mode"]
      by auto
    then have "\<not> allowed (parseQuery up query mode)"
      using rej by (simp add: parseQuery_def)
    then show ?thesis using False by simp
  qed
  show ?thesis using iff rej ok by blast
qed

theorem C5_batch_verdict_witness:
  "splitStatements (normalizeQuery (js ''SELECT * FROM a.b; DROP TABLE a.b;''))
     = [js ''SELECT * FROM a.b'', js ''DROP TABLE a.b'']
   \<and> isAllowed (detectQueryType asciiToUpperCase (js ''SELECT * FROM a.b'')) WRITE_ENABLED
   \<and> \<not> isAllowed (detectQueryType asciiToUpperCase (js ''DROP TABLE a.b'')) WRITE_ENABLED
   \<and> \<not> allowed (parseQuery asciiToUpperCase (js ''SELECT * FROM a.b; DROP TABLE a.b;'')
                  WRITE_ENABLED)
   \<and> parseQueryLogged asciiToUpperCase (js ''SELECT * FROM a.b; DROP TABLE a.b;'') WRITE_ENABLED
     = (\<lparr>queryType = DROP, allowed = False,
         reason = Some (js ''DROP operations are dangerous and blocked even in WRITE mode for safety. Use MySQL CLI directly for destructive DDL operations.''),
         suggestion = Some (js ''Even in WRITE mode, destructive DDL operations are blocked. Use MySQL CLI directly for these operations.'')\<rparr>,
        [js ''Query EXECUTED [WRITE_ENABLED] (SELECT): SELECT * FROM a.b'',
         js ''Query BLOCKED [WRITE_ENABLED] (DROP): DROP TABLE a.b''])
   \<and> splitStatements (normalizeQuery (js ''SELECT 1; INSERT INTO t VALUES (1); DROP TABLE t''))
     = [js ''SELECT 1'', js ''INSERT INTO t VALUES (1)'', js ''DROP TABLE t'']
   \<and> parseQueryLogged asciiToUpperCase (js ''SELECT 1; INSERT INTO t VALUES (1); DROP TABLE t'')
       READ_ONLY
     = (\<lparr>queryType = INSERT, allowed = False,
         reason = Some (js ''INSERT operations are not allowed in READ-ONLY mode. Set MYSQL_ALLOW_WRITE=true to enable write operations.''),
         suggestion = Some (js ''To enable write operations, set the environment variable: MYSQL_ALLOW_WRITE=true'')\<rparr>,
        [js ''Query EXECUTED [READ_ONLY] (SELECT): SELECT 1'',
         js ''Query BLOCKED [READ_ONLY] (INSERT): INSERT INTO t VALUES (1)''])
   \<and> splitStatements (normalizeQuery (js ''SHOW TABLES; SELECT 1''))
     = [js ''SHOW TABLES'', js ''SELECT 1'']
   \<and> parseQueryLogged asciiToUpperCase (js ''SHOW TABLES; SELECT 1'') READ_ONLY
     = (\<lparr>queryType = SHOW, allowed = True, reason = None, suggestion = None\<rparr>,
        [js ''Query EXECUTED [READ_ONLY] (SHOW): SHOW TABLES'',
         js ''Query EXECUTED [READ_ONLY] (SELECT): SELECT 1''])"
proof -
  have u1: "splitStatements (normalizeQuery (js ''SELECT * FROM a.b; DROP TABLE a.b;''))
     = [js ''SELECT * FROM a.b'', js ''DROP TABLE a.b'']"
    by (simp add: lexer_defs classifier_defs)
  have d1: "detectQueryType asciiToUpperCase (js ''SELECT * FROM a.b'') = SELECT"
    by (simp add: lexer_defs classifier_defs)
  have d2: "detectQueryType asciiToUpperCase (js ''DROP TABLE a.b'') = DROP"
    by (simp add: lexer_defs classifier_defs)
  have a1: "isAllowed SELECT WRITE_ENABLED" by (simp add: policy_defs)
  have a2: "\<not> isAllowed DROP WRITE_ENABLED" by (simp add: policy_defs)
  have e2: "explainBlocked DROP WRITE_ENABLED = js ''DROP operations are dangerous and blocked even in WRITE mode for safety. Use MySQL CLI directly for destructive DDL operations.''"
    by (simp add: explainBlocked_def js_def)
  have s2: "suggestFix DROP WRITE_ENABLED = js ''Even in WRITE mode, destructive DDL operations are blocked. Use MySQL CLI directly for these operations.''"
    by (simp add: suggestFix_def)
  have l1: "logQuery (js ''SELECT * FROM a.b'') WRITE_ENABLED True (Some SELECT)
              = js ''Query EXECUTED [WRITE_ENABLED] (SELECT): SELECT * FROM a.b''"
    by (simp add: logQuery_def truncateForLog_def LOG_QUERY_TRUNCATE_LENGTH_def js_def)
  have l2: "logQuery (js ''DROP TABLE a.b'') WRITE_ENABLED False (Some DROP)
              = js ''Query BLOCKED [WRITE_ENABLED] (DROP): DROP TABLE a.b''"
    by (simp add: logQuery_def truncateForLog_def LOG_QUERY_TRUNCATE_LENGTH_def js_def)
  have n1: "[js ''SELECT * FROM a.b'', js ''DROP TABLE a.b''] \<noteq> []" by simp
  note t1 = C5_batch_verdict [OF u1 n1, of asciiToUpperCase WRITE_ENABLED]
  have r1: "parseQueryLogged asciiToUpperCase (js ''SELECT * FROM a.b; DROP TABLE a.b;'')
              WRITE_ENABLED
     = (\<lparr>queryType = DROP, allowed = False,
         reason = Some (js ''DROP operations are dangerous and blocked even in WRITE mode for safety. Use MySQL CLI directly for destructive DDL operations.''),
         suggestion = Some (js ''Even in WRITE mode, destructive DDL operations are blocked. Use MySQL CLI directly for these operations.'')\<rparr>,
        [js ''Query EXECUTED [WRITE_ENABLED] (SELECT): SELECT * FROM a.b'',
         js ''Query BLOCKED [WRITE_ENABLED] (DROP): DROP TABLE a.b''])"
    using t1 [THEN conjunct2, THEN conjunct1, rule_format,
        of "[js ''SELECT * FROM a.b'']" "js ''DROP TABLE a.b''" "[]"]
    by (simp add: d1 d2 a1 a2 e2 s2 l1 l2)
  have r0: "\<not> allowed (parseQuery asciiToUpperCase (js ''SELECT * FROM a.b; DROP TABLE a.b;'')
                  WRITE_ENABLED)"
    using t1 [THEN conjunct1] by (simp add: d1 d2 a1 a2)
  have u3: "splitStatements (normalizeQuery (js ''SELECT 1; INSERT INTO t VALUES (1); DROP TABLE t''))
     = [js ''SELECT 1'', js ''INSERT INTO t VALUES (1)'', js ''DROP TABLE t'']"
    by (simp add: lexer_defs classifier_defs)
  have d4: "detectQueryType asciiToUpperCase (js ''SELECT 1'') = SELECT"
    by (simp add: lexer_defs classifier_defs)
  have d5: "detectQueryType asciiToUpperCase (js ''INSERT INTO t VALUES (1)'') = INSERT"
    by (simp add: lexer_defs classifier_defs)
  have a4: "isAllowed SELECT READ_ONLY" by (simp add: policy_defs)
  have a5: "\<not> isAllowed INSERT READ_ONLY" by (simp add: policy_defs)
  have e5: "explainBlocked INSERT READ_ONLY = js ''INSERT operations are not allowed in READ-ONLY mode. Set MYSQL_ALLOW_WRITE=true to enable write operations.''"
    by (simp add: explainBlocked_def js_def)
  have s5: "suggestFix INSERT READ_ONLY = js ''To enable write operations, set the environment variable: MYSQL_ALLOW_WRITE=true''"
    by (simp add: suggestFix_def policy_defs)
  have l4: "logQuery (js ''SELECT 1'') READ_ONLY True (Some SELECT)
              = js ''Query EXECUTED [READ_ONLY] (SELECT): SELECT 1''"
    by (simp add: logQuery_def truncateForLog_def LOG_QUERY_TRUNCATE_LENGTH_def js_def)
  have l5: "logQuery (js ''INSERT INTO t VALUES (1)'') READ_ONLY False (Some INSERT)
              = js ''Query BLOCKED [READ_ONLY] (INSERT): INSERT INTO t VALUES (1)''"
    by (simp add: logQuery_def truncateForLog_def LOG_QUERY_TRUNCATE_LENGTH_def js_def)
  have n3: "[js ''SELECT 1'', js ''INSERT INTO t VALUES (1)'', js ''DROP TABLE t''] \<noteq> []"
    by simp
  note t3 = C5_batch_verdict [OF u3 n3, of asciiToUpperCase READ_ONLY]
  have r3: "parseQueryLogged asciiToUpperCase
              (js ''SELECT 1; INSERT INTO t VALUES (1); DROP TABLE t'') READ_ONLY
     = (\<lparr>queryType = INSERT, allowed = False,
         reason = Some (js ''INSERT operations are not allowed in READ-ONLY mode. Set MYSQL_ALLOW_WRITE=true to enable write operations.''),
         suggestion = Some (js ''To enable write operations, set the environment variable: MYSQL_ALLOW_WRITE=true'')\<rparr>,
        [js ''Query EXECUTED [READ_ONLY] (SELECT): SELECT 1'',
         js ''Query BLOCKED [READ_ONLY] (INSERT): INSERT INTO t VALUES (1)''])"
    using t3 [THEN conjunct2, THEN conjunct1, rule_format,
        of "[js ''SELECT 1'']" "js ''INSERT INTO t VALUES (1)''" "[js ''DROP TABLE t'']"]
    by (simp add: d4 d5 a4 a5 e5 s5 l4 l5)
  have u2: "splitStatements (normalizeQuery (js ''SHOW TABLES; SELECT 1''))
     = [js ''SHOW TABLES'', js ''SELECT 1'']"
    by (simp add: lexer_defs classifier_defs)
  have d3: "detectQueryType asciiToUpperCase (js ''SHOW TABLES'') = SHOW"
    by (simp add: lexer_defs classifier_defs)
  have a3: "isAllowed SHOW READ_ONLY" by (simp add: policy_defs)
  have l3: "logQuery (js ''SHOW TABLES'') READ_ONLY True (Some SHOW)
              = js ''Query EXECUTED [READ_ONLY] (SHOW): SHOW TABLES''"
    by (simp add: logQuery_def truncateForLog_def LOG_QUERY_TRUNCATE_LENGTH_def js_def)
  have n2: "[js ''SHOW TABLES'', js ''SELECT 1''] \<noteq> []" by simp
  note t2 = C5_batch_verdict [OF u2 n2, of asciiToUpperCase READ_ONLY]
  have r2: "parseQueryLogged asciiToUpperCase (js ''SHOW TABLES; SELECT 1'') READ_ONLY
     = (\<lparr>queryType = SHOW, allowed = True, reason = None, suggestion = None\<rparr>,
        [js ''Query EXECUTED [READ_ONLY] (SHOW): SHOW TABLES'',
         js ''Query EXECUTED [READ_ONLY] (SELECT): SELECT 1''])"
    using t2 [THEN conjunct2, THEN conjunct2] by (simp add: d3 d4 a3 a4 l3 l4)
  show ?thesis
    unfolding d1 d2 by (intro conjI u1 u2 u3 r0 r1 r2 r3 a1 a2)
qed

section \<open>Empty requests\<close>

text \<open>
  C10. When normalization and splitting leave no statement unit (only comments,
  whitespace or semicolons), \<open>parseQuery\<close> returns the verdict Unknown, not allowed, with
  the reason \<open>Empty or invalid query\<close> and the suggestion to provide a valid SQL query; it
  returns a value, logs nothing, and the executor raises the blocked-query error without
  any call to the pool.
\<close>

theorem C10_empty_query_rejected:
  assumes "splitStatements (normalizeQuery query) = []"
  shows "parseQueryLogged up query mode =
           (\<lparr>queryType = UNKNOWN, allowed = False,
             reason = Some (js ''Empty or invalid query''),
             suggestion = Some (js ''Please provide a valid SQL query.'')\<rparr>, [])
       \<and> executeQuery up poolQuery elapsed client mode query =
           (Inl (newError (js ''Query blocked: Empty or invalid query''
                  @ [nl, nl]
                  @ js ''Please provide a valid SQL query.'')), [], [])"
  using assms by (simp add: parseQueryLogged_def executeQuery_def blockedMessage_def js_def)

theorem C10_empty_query_rejected_witness:
  "splitStatements (normalizeQuery (js ''/* c */ -- x ; ;'')) = []
   \<and> parseQueryLogged asciiToUpperCase (js ''/* c */ -- x ; ;'') WRITE_ENABLED =
           (\<lparr>queryType = UNKNOWN, allowed = False,
             reason = Some (js ''Empty or invalid query''),
             suggestion = Some (js ''Please provide a valid SQL query.'')\<rparr>, [])
   \<and> executeQuery asciiToUpperCase (\<lambda>_. Inr (RowArray [], [])) 0
         \<lparr>poolInitialized = True, configQueryTimeout = 30000\<rparr> WRITE_ENABLED
         (js ''/* c */ -- x ; ;'') =
           (Inl (newError (js ''Query blocked: Empty or invalid query''
                  @ [nl, nl]
                  @ js ''Please provide a valid SQL query.'')), [], [])"
proof -
  have h: "splitStatements (normalizeQuery (js ''/* c */ -- x ; ;'')) = []"
    by (simp add: lexer_defs)
  show ?thesis
    using h C10_empty_query_rejected [OF h, of asciiToUpperCase WRITE_ENABLED
        "\<lambda>_. Inr (RowArray [], [])" 0 "\<lparr>poolInitialized = True, configQueryTimeout = 30000\<rparr>"]
    by simp
qed

section \<open>What the executor sends to the database\<close>

text \<open>
  C9. When the request has statement units and every unit is authorized (and the client's
  pool exists), the executor calls the pool exactly once, with the raw query as received
  as SQL text and the configured timeout: its outcome is computed from what the pool
  answers to that call. A result is returned formatted; a rejection is re-thrown (a
  message containing \<open>timeout\<close> replaced by the client's timeout message) with the
  execution time appended. Comments and whitespace that the normalizer removed for
  classification are sent verbatim, and the units are not sent one by one.
\<close>

theorem C9_raw_query_forwarded:
  assumes units: "splitStatements (normalizeQuery query) = units"
    and ne: "units \<noteq> []"
    and ok: "\<forall>u\<in>set units. isAllowed (detectQueryType up u) mode"
    and pool: "poolInitialized client"
  shows "executeQuery up poolQuery elapsed client mode query =
           ((case poolQuery \<lparr>optSql = query, optTimeout = configQueryTimeout client\<rparr> of
               Inr (nrows, flds) \<Rightarrow> Inr (formatResult nrows flds elapsed)
             | Inl error \<Rightarrow>
                 Inl (if instanceofError error
                      then (if str_includes (errMessage error) (js ''timeout'')
                            then newError (js ''Query execution timeout exceeded (''
                                   @ showNat (configQueryTimeout client) @ js ''ms)'')
                            else error)
                           \<lparr>errMessage :=
                              (if str_includes (errMessage error) (js ''timeout'')
                               then js ''Query execution timeout exceeded (''
                                      @ showNat (configQueryTimeout client) @ js ''ms)''
                               else errMessage error)
                              @ js '' (execution time: '' @ showInt elapsed @ js ''ms)''\<rparr>
                      else error)),
            [\<lparr>optSql = query, optTimeout = configQueryTimeout client\<rparr>],
            map (\<lambda>s. logQuery s mode True (Some (detectQueryType up s))) units)"
proof -
  obtain first rest where fr: "units = first # rest" using ne by (cases units) auto
  have pq: "parseQueryLogged up query mode =
           (\<lparr>queryType = detectQueryType up first, allowed = True,
             reason = None, suggestion = None\<rparr>,
            map (\<lambda>s. logQuery s mode True (Some (detectQueryType up s))) (first # rest))"
    using parseQueryLogged_accept [of query first rest up mode] units ok fr by simp
  show ?thesis
    unfolding executeQuery_def pq fr
    by (simp add: clientExecuteQuery_def pool Let_def newError_def
        split: sum.splits prod.splits)
qed

theorem C9_raw_query_forwarded_witness:
  "splitStatements (normalizeQuery (js ''SELECT 1 /* c */;  SHOW  TABLES''))
     = [js ''SELECT 1'', js ''SHOW TABLES'']
   \<and> isAllowed (detectQueryType asciiToUpperCase (js ''SELECT 1'')) READ_ONLY
   \<and> isAllowed (detectQueryType asciiToUpperCase (js ''SHOW TABLES'')) READ_ONLY
   \<and> normalizeQuery (js ''SELECT 1 /* c */;  SHOW  TABLES'') = js ''SELECT 1 ; SHOW TABLES''
   \<and> executeQuery asciiToUpperCase
        (\<lambda>opts. if optSql opts = js ''SELECT 1 /* c */;  SHOW  TABLES''
                   then Inr (Packet \<lparr>okAffectedRows = 7, okInsertId = None,
                                     okChangedRows = None\<rparr>, [])
                   else Inl (newError (js ''not the text received'')))
        5 \<lparr>poolInitialized = True, configQueryTimeout = 30000\<rparr> READ_ONLY
        (js ''SELECT 1 /* c */;  SHOW  TABLES'')
     = (Inr \<lparr>columns = None, rows = None, affectedRows = Some 7, insertId = Some 0,
              changedRows = Some 0, rowCount = 7, executionTime = 5,
              truncated = Some False\<rparr>,
        [\<lparr>optSql = js ''SELECT 1 /* c */;  SHOW  TABLES'', optTimeout = 30000\<rparr>],
        [js ''Query EXECUTED [READ_ONLY] (SELECT): SELECT 1'',
         js ''Query EXECUTED [READ_ONLY] (SHOW): SHOW TABLES''])"
proof -
  have u: "splitStatements (normalizeQuery (js ''SELECT 1 /* c */;  SHOW  TABLES''))
     = [js ''SELECT 1'', js ''SHOW TABLES'']"
    by (simp add: lexer_defs)
  have n: "normalizeQuery (js ''SELECT 1 /* c */;  SHOW  TABLES'') = js ''SELECT 1 ; SHOW TABLES''"
    by (simp add: lexer_defs)
  have d1: "detectQueryType asciiToUpperCase (js ''SELECT 1'') = SELECT"
    by (simp add: lexer_defs classifier_defs)
  have d2: "detectQueryType asciiToUpperCase (js ''SHOW TABLES'') = SHOW"
    by (simp add: lexer_defs classifier_defs)
  have a1: "isAllowed (detectQueryType asciiToUpperCase (js ''SELECT 1'')) READ_ONLY"
    unfolding d1 by (simp add: policy_defs)
  have a2: "isAllowed (detectQueryType asciiToUpperCase (js ''SHOW TABLES'')) READ_ONLY"
    unfolding d2 by (simp add: policy_defs)
  have l1: "logQuery (js ''SELECT 1'') READ_ONLY True (Some SELECT)
              = js ''Query EXECUTED [READ_ONLY] (SELECT): SELECT 1''"
    by (simp add: logQuery_def truncateForLog_def LOG_QUERY_TRUNCATE_LENGTH_def js_def)
  have l2: "logQuery (js ''SHOW TABLES'') READ_ONLY True (Some SHOW)
              = js ''Query EXECUTED [READ_ONLY] (SHOW): SHOW TABLES''"
    by (simp add: logQuery_def truncateForLog_def LOG_QUERY_TRUNCATE_LENGTH_def js_def)
  have f: "formatResult (Packet \<lparr>okAffectedRows = 7, okInsertId = None, okChangedRows = None\<rparr>)
             [] 5
           = \<lparr>columns = None, rows = None, affectedRows = Some 7, insertId = Some 0,
              changedRows = Some 0, rowCount = 7, executionTime = 5,
              truncated = Some False\<rparr>"
    by (simp add: formatResult_def)
  have ne: "[js ''SELECT 1'', js ''SHOW TABLES''] \<noteq> []" by simp
  have ok: "\<forall>u\<in>set [js ''SELECT 1'', js ''SHOW TABLES''].
              isAllowed (detectQueryType asciiToUpperCase u) READ_ONLY"
    using a1 a2 by simp
  have p: "poolInitialized \<lparr>poolInitialized = True, configQueryTimeout = 30000\<rparr>" by simp
  have c: "executeQuery asciiToUpperCase
        (\<lambda>opts. if optSql opts = js ''SELECT 1 /* c */;  SHOW  TABLES''
                   then Inr (Packet \<lparr>okAffectedRows = 7, okInsertId = None,
                                     okChangedRows = None\<rparr>, [])
                   else Inl (newError (js ''not the text received'')))
        5 \<lparr>poolInitialized = True, configQueryTimeout = 30000\<rparr> READ_ONLY
        (js ''SELECT 1 /* c */;  SHOW  TABLES'')
     = (Inr \<lparr>columns = None, rows = None, affectedRows = Some 7, insertId = Some 0,
              changedRows = Some 0, rowCount = 7, executionTime = 5,
              truncated = Some False\<rparr>,
        [\<lparr>optSql = js ''SELECT 1 /* c */;  SHOW  TABLES'', optTimeout = 30000\<rparr>],
        [js ''Query EXECUTED [READ_ONLY] (SELECT): SELECT 1'',
         js ''Query EXECUTED [READ_ONLY] (SHOW): SHOW TABLES''])"
    using C9_raw_query_forwarded [OF u ne ok p,
        of "\<lambda>opts. if optSql opts = js ''SELECT 1 /* c */;  SHOW  TABLES''
                   then Inr (Packet \<lparr>okAffectedRows = 7, okInsertId = None,
                                     okChangedRows = None\<rparr>, [])
                   else Inl (newError (js ''not the text received''))" 5]
    by (simp add: f d1 d2 l1 l2)
  show ?thesis by (intro conjI u a1 a2 n c)
qed

section \<open>Error translation\<close>

lemmas error_defs =
  handleQueryError_def isTimeoutError_def isMySQLError_def handleMySQLError_def
  handleTimeoutError_def lockWaitTimeoutMessage_def

text \<open>
  C7. \<open>handleQueryError\<close> tests \<open>isTimeoutError\<close> first, and that test is a substring
  search for \<open>timeout\<close> in the message. The mysql2 error of a lock-wait timeout (code
  \<open>ER_LOCK_WAIT_TIMEOUT\<close>, message \<open>Lock wait timeout exceeded; try restarting
  transaction\<close>) contains it: the translator answers with the query-deadline text, although
  \<open>handleMySQLError\<close> has the lock-wait text for this code; so does the whole tool call,
  where \<open>MySQLClient.executeQuery\<close> has already replaced the error by the same test.
\<close>

theorem C7_lock_wait_reported_as_query_timeout:
  "handleQueryError
     \<lparr>instanceofError = True, errName = js ''Error'',
      errMessage = js ''Lock wait timeout exceeded; try restarting transaction'',
      zodIssues = None, errCode = Some (js ''ER_LOCK_WAIT_TIMEOUT''),
      sqlMessage = Some (js ''Lock wait timeout exceeded; try restarting transaction''),
      errSql = Some (js ''UPDATE a.b SET c = 1''),
      asString = js ''Error: Lock wait timeout exceeded; try restarting transaction''\<rparr> 30000
   = handleTimeoutError 30000
   \<and> handleMySQLError
     \<lparr>instanceofError = True, errName = js ''Error'',
      errMessage = js ''Lock wait timeout exceeded; try restarting transaction'',
      zodIssues = None, errCode = Some (js ''ER_LOCK_WAIT_TIMEOUT''),
      sqlMessage = Some (js ''Lock wait timeout exceeded; try restarting transaction''),
      errSql = Some (js ''UPDATE a.b SET c = 1''),
      asString = js ''Error: Lock wait timeout exceeded; try restarting transaction''\<rparr>
   = lockWaitTimeoutMessage
   \<and> handleTimeoutError 30000 \<noteq> lockWaitTimeoutMessage
   \<and> fst (handleQueryTool Inr asciiToUpperCase (\<lambda>_. [])
     (\<lambda>_. Inl \<lparr>instanceofError = True, errName = js ''Error'',
      errMessage = js ''Lock wait timeout exceeded; try restarting transaction'',
      zodIssues = None, errCode = Some (js ''ER_LOCK_WAIT_TIMEOUT''),
      sqlMessage = Some (js ''Lock wait timeout exceeded; try restarting transaction''),
      errSql = Some (js ''UPDATE a.b SET c = 1''),
      asString = js ''Error: Lock wait timeout exceeded; try restarting transaction''\<rparr>)
     5 \<lparr>poolInitialized = True, configQueryTimeout = 30000\<rparr> WRITE_ENABLED
     \<lparr>inputQuery = js ''UPDATE a.b SET c = 1'', inputResponseFormat = js ''markdown''\<rparr> 30000)
   = handleTimeoutError 30000"
proof -
  have a: "handleQueryError
     \<lparr>instanceofError = True, errName = js ''Error'',
      errMessage = js ''Lock wait timeout exceeded; try restarting transaction'',
      zodIssues = None, errCode = Some (js ''ER_LOCK_WAIT_TIMEOUT''),
      sqlMessage = Some (js ''Lock wait timeout exceeded; try restarting transaction''),
      errSql = Some (js ''UPDATE a.b SET c = 1''),
      asString = js ''Error: Lock wait timeout exceeded; try restarting transaction''\<rparr> 30000
   = handleTimeoutError 30000
   \<and> handleMySQLError
     \<lparr>instanceofError = True, errName = js ''Error'',
      errMessage = js ''Lock wait timeout exceeded; try restarting transaction'',
      zodIssues = None, errCode = Some (js ''ER_LOCK_WAIT_TIMEOUT''),
      sqlMessage = Some (js ''Lock wait timeout exceeded; try restarting transaction''),
      errSql = Some (js ''UPDATE a.b SET c = 1''),
      asString = js ''Error: Lock wait timeout exceeded; try restarting transaction''\<rparr>
   = lockWaitTimeoutMessage
   \<and> handleTimeoutError 30000 \<noteq> lockWaitTimeoutMessage"
    by (simp add: error_defs js_def)
  have b: "fst (handleQueryTool Inr asciiToUpperCase (\<lambda>_. [])
     (\<lambda>_. Inl \<lparr>instanceofError = True, errName = js ''Error'',
      errMessage = js ''Lock wait timeout exceeded; try restarting transaction'',
      zodIssues = None, errCode = Some (js ''ER_LOCK_WAIT_TIMEOUT''),
      sqlMessage = Some (js ''Lock wait timeout exceeded; try restarting transaction''),
      errSql = Some (js ''UPDATE a.b SET c = 1''),
      asString = js ''Error: Lock wait timeout exceeded; try restarting transaction''\<rparr>)
     5 \<lparr>poolInitialized = True, configQueryTimeout = 30000\<rparr> WRITE_ENABLED
     \<lparr>inputQuery = js ''UPDATE a.b SET c = 1'', inputResponseFormat = js ''markdown''\<rparr> 30000)
   = handleTimeoutError 30000"
    by (simp add: error_defs handleQueryTool_def executeQuery_def parseQueryLogged_def
        clientExecuteQuery_def newError_def lexer_defs classifier_defs policy_defs Let_def)
  show ?thesis using a b by blast
qed

section \<open>The truncated flag\<close>

lemma formatResult_truncated: "truncated (formatResult nrows flds t) = Some False"
  by (cases nrows) (simp_all add: formatResult_def tabularResult_def)

lemma formatResult_columns: "columns (formatResult (RowArray rs) flds t) \<noteq> None"
  by (simp add: formatResult_def tabularResult_def)

lemma big_markdown_length:
  "length (formatAsMarkdown (formatResult
          (RowArray [[(js ''c'', CString (replicate 30000 (ch CHR ''x'')))]])
          [\<lparr>fieldName = js ''c'', fieldType = Some 253\<rparr>] 5) SELECT) = 30067"
  by (simp add: formatAsMarkdown_def formatResult_def tabularResult_def getProp_def
      formatMarkdownTable_def showInt_def showNat.simps)

text \<open>
  C3. Every branch of \<open>formatResult\<close> sets \<open>truncated: false\<close>, the metadata block of
  \<open>formatAsJSON\<close> is built from that result before the text is rendered, and
  \<open>applyCharacterLimit\<close> returns only a string: nothing sets the flag when the text is
  cut. For a row with a 30000-character cell the JSON response is the cut rendering of an
  object whose metadata says \<open>truncated = false\<close>, and the Markdown rendering, 30067 code
  units long, is cut to 25000 while the result's flag stays false.
\<close>

theorem C3_truncated_flag_never_set:
  "truncated (formatResult nrows flds t) = Some False
   \<and> metaTruncated (outMetadata (jsonOutput (formatResult nrows flds t))) = False
   \<and> handleQueryTool Inr asciiToUpperCase stringify
        (\<lambda>_. Inr (RowArray [[(js ''c'', CString (replicate 30000 (ch CHR ''x'')))]],
                   [\<lparr>fieldName = js ''c'', fieldType = Some 253\<rparr>]))
        5 \<lparr>poolInitialized = True, configQueryTimeout = 30000\<rparr> READ_ONLY
        \<lparr>inputQuery = js ''SELECT c FROM a.b'', inputResponseFormat = js ''json''\<rparr> 30000
     = (applyCharacterLimit (stringify (jsonOutput (formatResult
          (RowArray [[(js ''c'', CString (replicate 30000 (ch CHR ''x'')))]])
          [\<lparr>fieldName = js ''c'', fieldType = Some 253\<rparr>] 5))) True,
        [\<lparr>optSql = js ''SELECT c FROM a.b'', optTimeout = 30000\<rparr>])
   \<and> CHARACTER_LIMIT < length (formatAsMarkdown (formatResult
          (RowArray [[(js ''c'', CString (replicate 30000 (ch CHR ''x'')))]])
          [\<lparr>fieldName = js ''c'', fieldType = Some 253\<rparr>] 5) SELECT)
   \<and> fst (handleQueryTool Inr asciiToUpperCase stringify
        (\<lambda>_. Inr (RowArray [[(js ''c'', CString (replicate 30000 (ch CHR ''x'')))]],
                   [\<lparr>fieldName = js ''c'', fieldType = Some 253\<rparr>]))
        5 \<lparr>poolInitialized = True, configQueryTimeout = 30000\<rparr> READ_ONLY
        \<lparr>inputQuery = js ''SELECT c FROM a.b'', inputResponseFormat = js ''markdown''\<rparr> 30000)
     = applyCharacterLimit (formatAsMarkdown (formatResult
          (RowArray [[(js ''c'', CString (replicate 30000 (ch CHR ''x'')))]])
          [\<lparr>fieldName = js ''c'', fieldType = Some 253\<rparr>] 5) SELECT) True
   \<and> length (fst (handleQueryTool Inr asciiToUpperCase stringify
        (\<lambda>_. Inr (RowArray [[(js ''c'', CString (replicate 30000 (ch CHR ''x'')))]],
                   [\<lparr>fieldName = js ''c'', fieldType = Some 253\<rparr>]))
        5 \<lparr>poolInitialized = True, configQueryTimeout = 30000\<rparr> READ_ONLY
        \<lparr>inputQuery = js ''SELECT c FROM a.b'', inputResponseFormat = js ''markdown''\<rparr> 30000)) = CHARACTER_LIMIT"
proof -
  have j: "handleQueryTool Inr asciiToUpperCase stringify
        (\<lambda>_. Inr (RowArray [[(js ''c'', CString (replicate 30000 (ch CHR ''x'')))]],
                   [\<lparr>fieldName = js ''c'', fieldType = Some 253\<rparr>]))
        5 \<lparr>poolInitialized = True, configQueryTimeout = 30000\<rparr> READ_ONLY
        \<lparr>inputQuery = js ''SELECT c FROM a.b'', inputResponseFormat = js ''json''\<rparr> 30000
     = (applyCharacterLimit (stringify (jsonOutput (formatResult
          (RowArray [[(js ''c'', CString (replicate 30000 (ch CHR ''x'')))]])
          [\<lparr>fieldName = js ''c'', fieldType = Some 253\<rparr>] 5))) True,
        [\<lparr>optSql = js ''SELECT c FROM a.b'', optTimeout = 30000\<rparr>])"
    by (simp add: handleQueryTool_def executeQuery_def parseQueryLogged_def formatAsJSON_def
        clientExecuteQuery_def lexer_defs classifier_defs policy_defs Let_def)
  have m: "fst (handleQueryTool Inr asciiToUpperCase stringify
        (\<lambda>_. Inr (RowArray [[(js ''c'', CString (replicate 30000 (ch CHR ''x'')))]],
                   [\<lparr>fieldName = js ''c'', fieldType = Some 253\<rparr>]))
        5 \<lparr>poolInitialized = True, configQueryTimeout = 30000\<rparr> READ_ONLY
        \<lparr>inputQuery = js ''SELECT c FROM a.b'', inputResponseFormat = js ''markdown''\<rparr> 30000)
     = applyCharacterLimit (formatAsMarkdown (formatResult
          (RowArray [[(js ''c'', CString (replicate 30000 (ch CHR ''x'')))]])
          [\<lparr>fieldName = js ''c'', fieldType = Some 253\<rparr>] 5) SELECT) True"
    by (simp add: handleQueryTool_def executeQuery_def parseQueryLogged_def
        clientExecuteQuery_def lexer_defs classifier_defs policy_defs Let_def
        formatResult_columns)
  have g: "CHARACTER_LIMIT < length (formatAsMarkdown (formatResult
          (RowArray [[(js ''c'', CString (replicate 30000 (ch CHR ''x'')))]])
          [\<lparr>fieldName = js ''c'', fieldType = Some 253\<rparr>] 5) SELECT)"
    by (simp add: big_markdown_length CHARACTER_LIMIT_def)
  have l: "length (applyCharacterLimit (formatAsMarkdown (formatResult
          (RowArray [[(js ''c'', CString (replicate 30000 (ch CHR ''x'')))]])
          [\<lparr>fieldName = js ''c'', fieldType = Some 253\<rparr>] 5) SELECT) True)
     = CHARACTER_LIMIT"
    by (rule applyCharacterLimit_length [OF g]) (simp add: big_markdown_length)
  have f: "metaTruncated (outMetadata (jsonOutput (formatResult nrows flds t))) = False"
    by (simp add: jsonOutput_def formatResult_truncated)
  show ?thesis
    unfolding m l by (intro conjI formatResult_truncated f j g refl)
qed

section \<open>Normalization and splitting\<close>

subsection \<open>Line comments\<close>

lemma split_ne: "split sep s \<noteq> []"
  by (induction s) (auto split: list.splits)

lemma split_Cons_sep: "split sep (sep # cs) = [] # split sep cs"
  by simp

lemma split_takeWhile:
  "split sep s = takeWhile (\<lambda>x. x \<noteq> sep) s #
     (case dropWhile (\<lambda>x. x \<noteq> sep) s of [] \<Rightarrow> [] | _ # r \<Rightarrow> split sep r)"
  by (induction s) (auto split: list.splits)

lemma join_Nil_Cons: "xs \<noteq> [] \<Longrightarrow> join sep ([] # xs) = sep @ join sep xs"
  by (cases xs) simp_all

lemma join_Cons_Cons: "join sep ((c # x) # xs) = c # join sep (x # xs)"
  by (cases xs) simp_all

lemma ch_dash_nl: "ch CHR ''-'' \<noteq> nl"
  by (simp add: nl_def ch_def)

lemma cutAtDashes_Cons:
  "\<not> (c = ch CHR ''-'' \<and> d = ch CHR ''-'') \<Longrightarrow> c \<noteq> nl \<Longrightarrow>
   cutAtDashes (c # takeWhile (\<lambda>x. x \<noteq> nl) (d # cs)) =
   c # cutAtDashes (takeWhile (\<lambda>x. x \<noteq> nl) (d # cs))"
  by (auto simp: ch_dash_nl)

lemma removeLineComments_lines:
  "removeLineComments q = join [nl] (map cutAtDashes (split nl q))"
proof (induction q rule: removeLineComments.induct)
  case 1
  show ?case by simp
next
  case (2 c)
  show ?case by simp
next
  case (3 c d cs)
  show ?case
  proof (cases "c = ch CHR ''-'' \<and> d = ch CHR ''-''")
    case True
    then have cd: "c \<noteq> nl" "d \<noteq> nl" using ch_dash_nl by auto
    have lhs: "removeLineComments (c # d # cs) =
        join [nl] (map cutAtDashes (split nl (dropWhile (\<lambda>x. x \<noteq> nl) cs)))"
      using True 3(1) by simp
    have sp: "split nl (c # d # cs) = (c # d # takeWhile (\<lambda>x. x \<noteq> nl) cs) #
        (case dropWhile (\<lambda>x. x \<noteq> nl) cs of [] \<Rightarrow> [] | _ # r \<Rightarrow> split nl r)"
      using cd by (subst split_takeWhile) simp
    show ?thesis
    proof (cases "dropWhile (\<lambda>x. x \<noteq> nl) cs")
      case Nil
      show ?thesis unfolding lhs sp Nil using True by simp
    next
      case (Cons y r)
      then have y: "y = nl" using hd_dropWhile [of "\<lambda>x. x \<noteq> nl" cs] by auto
      show ?thesis unfolding lhs sp Cons using True split_ne [of nl r]
        by (simp add: y join_Nil_Cons)
    qed
  next
    case False
    then have lhs: "removeLineComments (c # d # cs) =
        c # join [nl] (map cutAtDashes (split nl (d # cs)))"
      using 3(2) by auto
    show ?thesis
    proof (cases "c = nl")
      case True
      then show ?thesis unfolding lhs using split_ne [of nl "d # cs"]
        by (simp add: join_Nil_Cons del: split.simps(2) add: split_Cons_sep)
    next
      case cn: False
      obtain l ls where ls: "split nl (d # cs) = l # ls"
        using split_ne [of nl "d # cs"] by (cases "split nl (d # cs)") auto
      have l: "l = takeWhile (\<lambda>x. x \<noteq> nl) (d # cs)"
        using ls split_takeWhile [of nl "d # cs"] by simp
      have sp: "split nl (c # d # cs) = (c # l) # ls"
        using cn ls by simp
      have cut: "cutAtDashes (c # l) = c # cutAtDashes l"
        unfolding l using cutAtDashes_Cons [OF False cn] .
      show ?thesis unfolding lhs sp ls by (simp add: cut join_Cons_Cons)
    qed
  qed
qed

subsection \<open>Block comments\<close>

lemma js_open: "js ''/*'' = [ch CHR ''/'', ch CHR ''*'']" by (simp add: js_def ch_def)
lemma js_close: "js ''*/'' = [ch CHR ''*'', ch CHR ''/'']" by (simp add: js_def ch_def)

lemma findClose_append:
  "\<not> str_includes b (js ''*/'') \<Longrightarrow> findClose (b @ js ''*/'' @ c) = Some c"
  by (induction b rule: findClose.induct) (auto simp: js_close ch_def)

lemma findClose_Some: "findClose cs = Some r \<Longrightarrow> \<exists>b. cs = b @ js ''*/'' @ r"
proof (induction cs rule: findClose.induct)
  case (3 c d cs)
  show ?case
  proof (cases "c = ch CHR ''*'' \<and> d = ch CHR ''/''")
    case True
    then have "c # d # cs = [] @ js ''*/'' @ r" using 3(2) by (simp add: js_close)
    then show ?thesis by blast
  next
    case False
    then obtain b where "d # cs = b @ js ''*/'' @ r" using 3 by auto
    then have "c # d # cs = (c # b) @ js ''*/'' @ r" by simp
    then show ?thesis by blast
  qed
qed simp_all

lemma removeBlockComments_span:
  assumes "\<not> str_includes a (js ''/*'')" "\<not> str_includes b (js ''*/'')"
  shows "removeBlockComments (a @ js ''/*'' @ b @ js ''*/'' @ c) = a @ removeBlockComments c"
  using assms(1)
proof (induction a)
  case Nil
  show ?case using findClose_append [OF assms(2), of c] by (simp add: js_open)
next
  case (Cons x a)
  then have ih: "removeBlockComments (a @ js ''/*'' @ b @ js ''*/'' @ c) = a @ removeBlockComments c"
    by simp
  show ?case
  proof (cases a)
    case Nil
    have "x \<noteq> ch CHR ''/'' \<or> ch CHR ''/'' \<noteq> ch CHR ''*''" by (simp add: ch_def)
    then show ?thesis using ih Nil by (auto simp: js_open)
  next
    case (Cons y a')
    have "\<not> (x = ch CHR ''/'' \<and> y = ch CHR ''*'')"
      using Cons.prems Cons by (auto simp: js_open)
    then show ?thesis using ih Cons by auto
  qed
qed

lemma removeBlockComments_no_span:
  "\<not> (\<exists>a b c. q = a @ js ''/*'' @ b @ js ''*/'' @ c) \<Longrightarrow> removeBlockComments q = q"
proof (induction q rule: removeBlockComments.induct)
  case (3 c d cs)
  have tl: "\<not> (\<exists>a b r. d # cs = a @ js ''/*'' @ b @ js ''*/'' @ r)"
  proof
    assume "\<exists>a b r. d # cs = a @ js ''/*'' @ b @ js ''*/'' @ r"
    then obtain a b r where "d # cs = a @ js ''/*'' @ b @ js ''*/'' @ r" by blast
    then have "c # d # cs = (c # a) @ js ''/*'' @ b @ js ''*/'' @ r" by simp
    then show False using "3.prems" by blast
  qed
  show ?case
  proof (cases "c = ch CHR ''/'' \<and> d = ch CHR ''*''")
    case True
    have fc: "findClose cs = None"
    proof (rule ccontr)
      assume "findClose cs \<noteq> None"
      then obtain r where "findClose cs = Some r" by auto
      then obtain b where "cs = b @ js ''*/'' @ r" using findClose_Some by blast
      then have "c # d # cs = [] @ js ''/*'' @ b @ js ''*/'' @ r" using True by (simp add: js_open)
      then show False using "3.prems" by blast
    qed
    show ?thesis using True fc "3.IH"(1) [OF True fc tl] by simp
  next
    case False
    show ?thesis using False "3.IH"(3) [OF False tl] by auto
  qed
qed simp_all



lemma join_split: "join [sep] (split sep s) = s"
proof (induction s)
  case Nil
  show ?case by simp
next
  case (Cons c s)
  obtain p ps where ps: "split sep s = p # ps" using split_ne [of sep s] by (cases "split sep s") auto
  show ?case using Cons ps by (auto simp: join_Cons_Cons)
qed

lemma split_no_sep: "p \<in> set (split sep s) \<Longrightarrow> sep \<notin> set p"
  by (induction s arbitrary: p) (auto split: list.splits if_splits)

subsection \<open>Whitespace\<close>

lemma join_Cons_ne: "xs \<noteq> [] \<Longrightarrow> join sep (x # xs) = x @ sep @ join sep xs"
  by (cases xs) simp_all

lemma tokens_dropWhile: "tokens (dropWhile isSpace s) = tokens s"
  by (induction s) auto

lemma tokens_spaces: "\<forall>x\<in>set t. isSpace x \<Longrightarrow> tokens t = []"
  by (induction t) auto

lemma tokens_append_spaces: "\<forall>x\<in>set t. isSpace x \<Longrightarrow> tokens (s @ t) = tokens s"
proof (induction s rule: tokens.induct)
  case 1
  then show ?case by (simp add: tokens_spaces)
next
  case (2 c cs)
  show ?case
  proof (cases "isSpace c")
    case True
    then show ?thesis using 2 by simp
  next
    case False
    show ?thesis
    proof (cases "\<forall>x\<in>set cs. \<not> isSpace x")
      case True
      have t0: "takeWhile (\<lambda>x. \<not> isSpace x) t = []" using 2(3) by (cases t) auto
      have d0: "dropWhile (\<lambda>x. \<not> isSpace x) t = t" using 2(3) by (cases t) auto
      have tc: "takeWhile (\<lambda>x. \<not> isSpace x) cs = cs" using True by simp
      have dc: "dropWhile (\<lambda>x. \<not> isSpace x) cs = []" using True by simp
      have ta: "takeWhile (\<lambda>x. \<not> isSpace x) (cs @ t) = cs"
        using True by (simp add: t0)
      have da: "dropWhile (\<lambda>x. \<not> isSpace x) (cs @ t) = t"
        using True by (simp add: d0)
      have l: "tokens ((c # cs) @ t) = [c # cs]"
        using False by (simp only: append_Cons tokens.simps if_False ta da tokens_spaces [OF 2(3)])
      have r: "tokens (c # cs) = [c # cs]"
        using False by (simp only: tokens.simps if_False tc dc)
      show ?thesis unfolding l r ..
    next
      case nall: False
      then obtain x where x: "x \<in> set cs" "\<not> \<not> isSpace x" by blast
      have tk: "takeWhile (\<lambda>x. \<not> isSpace x) (cs @ t) = takeWhile (\<lambda>x. \<not> isSpace x) cs"
        using takeWhile_append1 [of x cs "\<lambda>x. \<not> isSpace x" t] x by simp
      have dk: "dropWhile (\<lambda>x. \<not> isSpace x) (cs @ t) = dropWhile (\<lambda>x. \<not> isSpace x) cs @ t"
        using dropWhile_append1 [of x cs "\<lambda>x. \<not> isSpace x" t] x by simp
      show ?thesis using False 2(2) [OF False 2(3)] by (simp add: tk dk)
    qed
  qed
qed

lemma collapse_nonspace:
  "\<forall>x\<in>set w. \<not> isSpace x \<Longrightarrow> collapseWhitespace (w @ r) = w @ collapseWhitespace r"
  by (induction w) auto

lemma dropWhile_no_leadingSpace: "\<not> leadingSpace (dropWhile isSpace s)"
  by (induction s) (auto simp: leadingSpace_def)

lemma tokens_ne: "s \<noteq> [] \<Longrightarrow> \<not> leadingSpace s \<Longrightarrow> tokens s \<noteq> []"
  by (cases s) (auto simp: leadingSpace_def)

lemma collapse_tokens_aux:
  "length s \<le> n \<Longrightarrow> \<not> leadingSpace s \<Longrightarrow> s = [] \<or> \<not> isSpace (last s) \<Longrightarrow>
   collapseWhitespace s = join [ch CHR '' ''] (tokens s)"
proof (induction n arbitrary: s)
  case 0
  then show ?case by simp
next
  case (Suc n)
  show ?case
  proof (cases s)
    case Nil
    then show ?thesis by simp
  next
    case (Cons c cs)
    then have c: "\<not> isSpace c" using Suc.prems(2) by (simp add: leadingSpace_def)
    let ?w = "c # takeWhile (\<lambda>x. \<not> isSpace x) cs"
    let ?r = "dropWhile (\<lambda>x. \<not> isSpace x) cs"
    have s: "s = ?w @ ?r" using Cons by simp
    have w: "\<forall>x\<in>set ?w. \<not> isSpace x" using c by (auto dest: set_takeWhileD)
    have col: "collapseWhitespace s = ?w @ collapseWhitespace ?r"
      using collapse_nonspace [OF w, of ?r] s by simp
    have tok: "tokens s = ?w # tokens ?r" using Cons c by simp
    show ?thesis
    proof (cases ?r)
      case Nil
      show ?thesis unfolding col tok Nil by simp
    next
      case (Cons x r')
      then have x: "isSpace x" using hd_dropWhile [of "\<lambda>x. \<not> isSpace x" cs] by auto
      let ?r'' = "dropWhile isSpace ?r"
      have lasts: "\<not> isSpace (last s)" using Suc.prems(3) \<open>s = c # cs\<close> by simp
      have lastr: "last s = last ?r" using s Cons by (metis last_appendR list.distinct(1))
      have lr: "last ?r \<in> set ?r" using Cons by (metis last_in_set list.distinct(1))
      have ne: "?r'' \<noteq> []" using lasts lastr lr by auto
      have last'': "last ?r'' = last ?r"
        using lasts lastr lr dropWhile_last [of "last ?r" ?r isSpace] by simp
      have nl: "\<not> leadingSpace ?r''"
        by (rule dropWhile_no_leadingSpace)
      have len: "length ?r'' \<le> n"
      proof -
        have "length ?r'' \<le> length ?r" by (rule length_dropWhile_le)
        also have "\<dots> \<le> length cs" by (rule length_dropWhile_le)
        finally show ?thesis using Suc.prems(1) \<open>s = c # cs\<close> by simp
      qed
      have ih: "collapseWhitespace ?r'' = join [ch CHR '' ''] (tokens ?r'')"
        using Suc.IH [OF len nl] lasts lastr last'' by simp
      have colr: "collapseWhitespace ?r = ch CHR '' '' # collapseWhitespace ?r''"
        using Cons x by simp
      have tokr: "tokens ?r = tokens ?r''" by (simp add: tokens_dropWhile)
      have tne: "tokens ?r'' \<noteq> []" by (rule tokens_ne [OF ne nl])
      show ?thesis
        unfolding col tok colr tokr ih using tne by (simp add: join_Cons_ne)
    qed
  qed
qed

lemma trim_decomp:
  "dropWhile isSpace s = trim s @ rev (takeWhile isSpace (rev (dropWhile isSpace s)))"
proof -
  let ?d = "dropWhile isSpace s"
  have "rev (dropWhile isSpace (rev ?d)) @ rev (takeWhile isSpace (rev ?d))
        = rev (takeWhile isSpace (rev ?d) @ dropWhile isSpace (rev ?d))"
    by (simp only: rev_append)
  also have "\<dots> = rev (rev ?d)" by (simp only: takeWhile_dropWhile_id)
  also have "\<dots> = ?d" by simp
  finally show ?thesis by (simp only: trim_def)
qed

lemma trim_last: "trim s = [] \<or> \<not> isSpace (last (trim s))"
proof (cases "trim s = []")
  case False
  then have ne: "dropWhile isSpace (rev (dropWhile isSpace s)) \<noteq> []" by (simp add: trim_def)
  have "last (trim s) = hd (dropWhile isSpace (rev (dropWhile isSpace s)))"
    using ne by (simp add: trim_def last_rev)
  then show ?thesis using hd_dropWhile [OF ne] by simp
qed simp

lemma trim_no_leadingSpace: "\<not> leadingSpace (trim s)"
proof (cases "trim s")
  case Nil
  then show ?thesis by (simp add: leadingSpace_def)
next
  case (Cons c cs)
  have d: "dropWhile isSpace s = (c # cs) @ rev (takeWhile isSpace (rev (dropWhile isSpace s)))"
    using trim_decomp [of s] Cons by simp
  have ne: "dropWhile isSpace s \<noteq> []"
  proof
    assume e: "dropWhile isSpace s = []"
    show False using d unfolding e by simp
  qed
  have "hd (dropWhile isSpace s) = c" using d by (metis append_Cons list.sel(1))
  then have "\<not> isSpace c" using hd_dropWhile [OF ne] by simp
  then show ?thesis unfolding Cons by (simp add: leadingSpace_def)
qed

lemma tokens_trim: "tokens (trim s) = tokens s"
proof -
  have sp: "\<forall>x\<in>set (rev (takeWhile isSpace (rev (dropWhile isSpace s)))). isSpace x"
    by (auto dest: set_takeWhileD)
  have "tokens (dropWhile isSpace s) = tokens (trim s)"
    using tokens_append_spaces [OF sp, of "trim s"] trim_decomp [of s] by simp
  then show ?thesis by (simp add: tokens_dropWhile)
qed

lemma normalizeWhitespace_tokens:
  "normalizeWhitespace q = join [ch CHR '' ''] (tokens q)"
  unfolding normalizeWhitespace_def
  using collapse_tokens_aux [OF le_refl trim_no_leadingSpace trim_last, of q]
  by (simp add: tokens_trim)

lemma trim_idem: "trim (trim s) = trim s"
proof (cases "trim s")
  case Nil
  show ?thesis unfolding Nil by (simp add: trim_def)
next
  case (Cons c cs)
  have a: "dropWhile isSpace (trim s) = trim s"
    using trim_no_leadingSpace [of s] Cons by (simp add: leadingSpace_def)
  have tne: "trim s \<noteq> []" using Cons by simp
  have "\<not> isSpace (last (trim s))" using trim_last [of s] tne by blast
  then have "\<not> isSpace (hd (rev (trim s)))" by (simp add: hd_rev)
  then have b: "dropWhile isSpace (rev (trim s)) = rev (trim s)"
    by (cases "rev (trim s)") auto
  show ?thesis using a b by (simp add: trim_def [of "trim s"])
qed

lemma set_trim: "set (trim s) \<subseteq> set s"
  unfolding trim_def by (auto dest!: set_dropWhileD)

subsection \<open>The normalizer and the splitter\<close>

lemma trim_surrounded:
  "\<exists>l r. s = l @ trim s @ r \<and> (\<forall>x\<in>set l. isSpace x) \<and> (\<forall>x\<in>set r. isSpace x)"
proof -
  let ?l = "takeWhile isSpace s"
  let ?r = "rev (takeWhile isSpace (rev (dropWhile isSpace s)))"
  have "s = ?l @ dropWhile isSpace s" by simp
  then have "s = ?l @ trim s @ ?r" using trim_decomp [of s] by simp
  moreover have "\<forall>x\<in>set ?l. isSpace x" by (auto dest: set_takeWhileD)
  moreover have "\<forall>x\<in>set ?r. isSpace x" by (auto dest: set_takeWhileD)
  ultimately show ?thesis by blast
qed

lemma splitStatements_units:
  "u \<in> set (splitStatements n) \<Longrightarrow> u \<noteq> [] \<and> trim u = u \<and> ch CHR '';'' \<notin> set u"
proof -
  assume "u \<in> set (splitStatements n)"
  then obtain p where p: "p \<in> set (split (ch CHR '';'') n)" "u = trim p" "u \<noteq> []"
    by (auto simp: splitStatements_def)
  have "ch CHR '';'' \<notin> set p" using split_no_sep [OF p(1)] .
  then have "ch CHR '';'' \<notin> set u" using set_trim [of p] p(2) by auto
  then show ?thesis using p by (simp add: trim_idem)
qed

text \<open>
  What the two stages compute, for all texts and whatever quote characters they contain.
  \<^item> Line comments: the result is the raw input's lines (split at LF), each cut at its
    first \<open>--\<close>, joined by LF again.
  \<^item> Block comments, on the text the first pass leaves: the leftmost \<open>/* ... */\<close> span is
    removed and the scan goes on after it; a text with no such span is unchanged.
  \<^item> Whitespace: the normalized text is the maximal non-whitespace runs of the
    comment-stripped text joined by single spaces; \<open>trim\<close> drops exactly a whitespace
    prefix and suffix and leaves no whitespace at either end.
  \<^item> Splitting: the pieces of \<open>split\<close> joined by \<open>;\<close> give the text back and no piece
    contains \<open>;\<close>, so the text is divided at every \<open>;\<close>; the statement units are the
    trimmed pieces that are not empty, in order: each is non-empty, trimmed and free of \<open>;\<close>.
\<close>

lemma normalizer_lexical:
  "removeLineComments q = join [nl] (map cutAtDashes (split nl q))
   \<and> (\<not> str_includes a (js ''/*'') \<and> \<not> str_includes b (js ''*/'')
        \<longrightarrow> removeBlockComments (a @ js ''/*'' @ b @ js ''*/'' @ c) = a @ removeBlockComments c)
   \<and> (\<not> (\<exists>a b c. q = a @ js ''/*'' @ b @ js ''*/'' @ c) \<longrightarrow> removeBlockComments q = q)
   \<and> normalizeQuery q =
       join [ch CHR '' ''] (tokens (removeBlockComments (removeLineComments q)))
   \<and> (\<exists>l r. q = l @ trim q @ r \<and> (\<forall>x\<in>set l. isSpace x) \<and> (\<forall>x\<in>set r. isSpace x))
   \<and> \<not> leadingSpace (trim q) \<and> (trim q = [] \<or> \<not> isSpace (last (trim q)))
   \<and> join [ch CHR '';''] (split (ch CHR '';'') n) = n
   \<and> (\<forall>p\<in>set (split (ch CHR '';'') n). ch CHR '';'' \<notin> set p)
   \<and> splitStatements n = filter (\<lambda>u. u \<noteq> []) (map trim (split (ch CHR '';'') n))
   \<and> (\<forall>u\<in>set (splitStatements n). u \<noteq> [] \<and> trim u = u \<and> ch CHR '';'' \<notin> set u)"
proof -
  have 1: "removeLineComments q = join [nl] (map cutAtDashes (split nl q))"
    by (rule removeLineComments_lines)
  have 2: "\<not> str_includes a (js ''/*'') \<and> \<not> str_includes b (js ''*/'')
        \<longrightarrow> removeBlockComments (a @ js ''/*'' @ b @ js ''*/'' @ c) = a @ removeBlockComments c"
    using removeBlockComments_span by blast
  have 3: "\<not> (\<exists>a b c. q = a @ js ''/*'' @ b @ js ''*/'' @ c) \<longrightarrow> removeBlockComments q = q"
    using removeBlockComments_no_span by blast
  have 4: "normalizeQuery q =
       join [ch CHR '' ''] (tokens (removeBlockComments (removeLineComments q)))"
    by (simp add: normalizeQuery_def removeComments_def normalizeWhitespace_tokens)
  have 5: "\<exists>l r. q = l @ trim q @ r \<and> (\<forall>x\<in>set l. isSpace x) \<and> (\<forall>x\<in>set r. isSpace x)"
    by (rule trim_surrounded)
  have 6: "\<not> leadingSpace (trim q)" by (rule trim_no_leadingSpace)
  have 7: "trim q = [] \<or> \<not> isSpace (last (trim q))" by (rule trim_last)
  have 8: "join [ch CHR '';''] (split (ch CHR '';'') n) = n" by (rule join_split)
  have 9: "\<forall>p\<in>set (split (ch CHR '';'') n). ch CHR '';'' \<notin> set p"
    using split_no_sep by blast
  have 10: "splitStatements n = filter (\<lambda>u. u \<noteq> []) (map trim (split (ch CHR '';'') n))"
    by (simp add: splitStatements_def)
  have 11: "\<forall>u\<in>set (splitStatements n). u \<noteq> [] \<and> trim u = u \<and> ch CHR '';'' \<notin> set u"
    using splitStatements_units by blast
  show ?thesis using 1 2 3 4 5 6 7 8 9 10 11 by blast
qed

lemma normalizer_lexical_example:
  "removeLineComments (js ''SELECT 'a--b', 1'') = js ''SELECT 'a''
   \<and> \<not> str_includes (js ''SELECT 'a'') (js ''/*'')
   \<and> \<not> str_includes (js '' b '') (js ''*/'')
   \<and> removeBlockComments (js ''SELECT 'a'' @ js ''/*'' @ js '' b '' @ js ''*/'' @ js ''c' FROM t'')
       = js ''SELECT 'ac' FROM t''
   \<and> \<not> (\<exists>a b c. js ''SELECT 'a--b', 1'' = a @ js ''/*'' @ b @ js ''*/'' @ c)
   \<and> removeBlockComments (js ''SELECT 'a--b', 1'') = js ''SELECT 'a--b', 1''
   \<and> normalizeQuery (js ''SELECT 'a--b', 1'') = js ''SELECT 'a''
   \<and> splitStatements (js ''SELECT 'a;b' FROM t'') = [js ''SELECT 'a'', js ''b' FROM t'']
   \<and> trim (js ''SELECT 'a'') = js ''SELECT 'a''"
proof -
  note t = normalizer_lexical [of "js ''SELECT 'a--b', 1''" "js ''SELECT 'a''" "js '' b ''" "js ''c' FROM t''"
      "js ''SELECT 'a;b' FROM t''"]
  have c1: "removeLineComments (js ''SELECT 'a--b', 1'') = js ''SELECT 'a''"
    using t [THEN conjunct1] by (simp add: js_def ch_def nl_def)
  have h1: "\<not> str_includes (js ''SELECT 'a'') (js ''/*'')" by (simp add: js_def)
  have h2: "\<not> str_includes (js '' b '') (js ''*/'')" by (simp add: js_def)
  have c2: "removeBlockComments (js ''SELECT 'a'' @ js ''/*'' @ js '' b '' @ js ''*/'' @ js ''c' FROM t'')
       = js ''SELECT 'ac' FROM t''"
    using t [THEN conjunct2, THEN conjunct1] h1 h2 by (simp add: js_def ch_def)
  have h3: "\<not> (\<exists>a b c. js ''SELECT 'a--b', 1'' = a @ js ''/*'' @ b @ js ''*/'' @ c)"
  proof
    assume "\<exists>a b c. js ''SELECT 'a--b', 1'' = a @ js ''/*'' @ b @ js ''*/'' @ c"
    then obtain a b c where "js ''SELECT 'a--b', 1'' = a @ js ''/*'' @ b @ js ''*/'' @ c" by blast
    then have "set (js ''SELECT 'a--b', 1'') = set (a @ js ''/*'' @ b @ js ''*/'' @ c)" by simp
    then have "ch CHR ''/'' \<in> set (js ''SELECT 'a--b', 1'')" by (simp add: js_def ch_def)
    then show False by (simp add: js_def ch_def)
  qed
  have c3: "removeBlockComments (js ''SELECT 'a--b', 1'') = js ''SELECT 'a--b', 1''"
    using t [THEN conjunct2, THEN conjunct2, THEN conjunct1] h3 by blast
  have c4: "normalizeQuery (js ''SELECT 'a--b', 1'') = js ''SELECT 'a''"
    using t [THEN conjunct2, THEN conjunct2, THEN conjunct2, THEN conjunct1]
    by (simp add: js_def ch_def nl_def isSpace_def)
  have c5: "splitStatements (js ''SELECT 'a;b' FROM t'') = [js ''SELECT 'a'', js ''b' FROM t'']"
    by (simp add: lexer_defs)
  have c6: "trim (js ''SELECT 'a'') = js ''SELECT 'a''"
    using t [THEN conjunct2, THEN conjunct2, THEN conjunct2, THEN conjunct2, THEN conjunct2,
        THEN conjunct2, THEN conjunct2, THEN conjunct2, THEN conjunct2, THEN conjunct2] c5
    by simp
  show ?thesis by (intro conjI c1 h1 h2 c2 h3 c3 c4 c5 c6)
qed

text \<open>
  C8. Normalization does not remove every \<open>/* ... */\<close> span. The line-comment pass runs
  first, on the raw text, and the block-comment pass on what it leaves. In
  \<open>/* a -- b */ SELECT 1\<close> the span \<open>/* a -- b */\<close> contains \<open>--\<close>: the first pass removes
  \<open>-- b */ SELECT 1\<close>, closing \<open>*/\<close> included, the second pass finds no span, and the
  opening \<open>/* a\<close> of the block comment stays in the normalized text. It becomes the one
  statement unit, is classified Unknown and the request is rejected as an Unknown
  operation. The same comment without \<open>--\<close>, or with its \<open>*/\<close> on a later line than the
  \<open>--\<close>, is removed whole and leaves \<open>SELECT 1\<close>.
\<close>

theorem C8_block_comment_left_in_place:
  "js ''/* a -- b */ SELECT 1'' = js ''/*'' @ js '' a -- b '' @ js ''*/'' @ js '' SELECT 1''
   \<and> removeLineComments (js ''/* a -- b */ SELECT 1'') = js ''/* a ''
   \<and> normalizeQuery (js ''/* a -- b */ SELECT 1'') = js ''/* a''
   \<and> splitStatements (normalizeQuery (js ''/* a -- b */ SELECT 1'')) = [js ''/* a'']
   \<and> parseQuery asciiToUpperCase (js ''/* a -- b */ SELECT 1'') READ_ONLY
       = \<lparr>queryType = UNKNOWN, allowed = False,
          reason = Some (js ''UNKNOWN operations are not allowed in READ-ONLY mode.''),
          suggestion = Some []\<rparr>
   \<and> normalizeQuery (js ''/* a b */ SELECT 1'') = js ''SELECT 1''
   \<and> normalizeQuery (js ''/* a -- b'' @ [0x0A] @ js '' c */ SELECT 1'') = js ''SELECT 1''
   \<and> allowed (parseQuery asciiToUpperCase (js ''/* a b */ SELECT 1'') READ_ONLY)"
proof -
  have 1: "js ''/* a -- b */ SELECT 1'' = js ''/*'' @ js '' a -- b '' @ js ''*/'' @ js '' SELECT 1''"
    by (simp add: js_def)
  have 2: "removeLineComments (js ''/* a -- b */ SELECT 1'') = js ''/* a ''"
    by (simp add: lexer_defs)
  have 3: "normalizeQuery (js ''/* a -- b */ SELECT 1'') = js ''/* a''"
    by (simp add: lexer_defs)
  have 4: "splitStatements (normalizeQuery (js ''/* a -- b */ SELECT 1'')) = [js ''/* a'']"
    unfolding 3 by (simp add: lexer_defs)
  have d: "detectQueryType asciiToUpperCase (js ''/* a'') = UNKNOWN"
    by (simp add: lexer_defs classifier_defs)
  have 5: "parseQuery asciiToUpperCase (js ''/* a -- b */ SELECT 1'') READ_ONLY
       = \<lparr>queryType = UNKNOWN, allowed = False,
          reason = Some (js ''UNKNOWN operations are not allowed in READ-ONLY mode.''),
          suggestion = Some []\<rparr>"
  proof -
    have e: "explainBlocked UNKNOWN READ_ONLY
               = js ''UNKNOWN operations are not allowed in READ-ONLY mode.''"
      by (simp add: explainBlocked_def js_def)
    have s: "suggestFix UNKNOWN READ_ONLY = []" by (simp add: suggestFix_def policy_defs)
    have a: "\<not> isAllowed UNKNOWN READ_ONLY" by (simp add: policy_defs)
    show ?thesis
      unfolding parseQuery_def parseQueryLogged_def Let_def 4
      by (simp add: Let_def d a blockedVerdict_def e s)
  qed
  have 6: "normalizeQuery (js ''/* a b */ SELECT 1'') = js ''SELECT 1''"
    by (simp add: lexer_defs)
  have 7: "normalizeQuery (js ''/* a -- b'' @ [0x0A] @ js '' c */ SELECT 1'') = js ''SELECT 1''"
    by (simp add: lexer_defs)
  have 8: "splitStatements (normalizeQuery (js ''/* a b */ SELECT 1'')) = [js ''SELECT 1'']"
    unfolding 6 by (simp add: lexer_defs)
  have d2: "detectQueryType asciiToUpperCase (js ''SELECT 1'') = SELECT"
    by (simp add: lexer_defs classifier_defs)
  have 9: "allowed (parseQuery asciiToUpperCase (js ''/* a b */ SELECT 1'') READ_ONLY)"
  proof -
    have a: "isAllowed SELECT READ_ONLY" by (simp add: policy_defs)
    show ?thesis
      unfolding parseQuery_def parseQueryLogged_def Let_def 8
      by (simp add: Let_def d2 a)
  qed
  show ?thesis by (intro conjI 1 2 3 4 5 6 7 9)
qed

subsection \<open>Statement units reach the classifier without leading whitespace\<close>

lemma upper_letter_not_space:
  fixes c :: jschar
  assumes "0x61 \<le> c" "c \<le> 0x7A"
  shows "\<not> isSpace (c - 0x20)"
proof -
  have "0x41 \<le> c - 0x20 \<and> c - 0x20 \<le> 0x5A" using assms by unat_arith
  then show ?thesis unfolding isSpace_def by (auto simp: word_le_def)
qed

lemma asciiToUpperCase_leadingSpace:
  "leadingSpace (asciiToUpperCase s) = leadingSpace s"
proof (cases s)
  case Nil
  then show ?thesis by (simp add: asciiToUpperCase_def)
next
  case (Cons c cs)
  have "0x61 \<le> c \<and> c \<le> 0x7A \<Longrightarrow> \<not> isSpace c"
    unfolding isSpace_def by (auto simp: word_le_def)
  then show ?thesis using Cons upper_letter_not_space [of c]
    by (auto simp: asciiToUpperCase_def leadingSpace_def)
qed

lemma unit_no_leadingSpace:
  assumes "u \<in> set (splitStatements n)"
  shows "\<not> leadingSpace (asciiToUpperCase u)"
proof -
  have "trim u = u" using splitStatements_units [OF assms] by simp
  then have "\<not> leadingSpace u" using trim_no_leadingSpace [of u] by simp
  then show ?thesis by (simp add: asciiToUpperCase_leadingSpace)
qed

end
